theory Spec2Isabelle
  imports Main "HOL-Library.Char_ord" "HOL-Library.List_Lexorder"
begin

section \<open>TaskForge: data model\<close>

text \<open>
  The relational schema of \<^verbatim>\<open>models/database.js\<close>. Each table is the list of its rows
  in rowid order. Integer keys are natural numbers, a nullable column is an \<open>option\<close>,
  the columns constrained by a \<^verbatim>\<open>CHECK (... IN ...)\<close> are datatypes, and
  \<^verbatim>\<open>CURRENT_TIMESTAMP\<close> is the number of seconds read from the clock, passed to each
  operation as \<open>now\<close>.
\<close>

datatype user_role = Admin | Manager | Member

datatype member_role = POwner | PAdmin | PMember | PViewer

datatype task_status = Todo | InProgress | Review | Done | Cancelled

datatype task_priority = Low | Medium | High | Urgent

text \<open>
  The column \<^verbatim>\<open>due_date DATE\<close> has numeric affinity: SQLite keeps a text that is an
  integer literal as an integer and any other text as text.
\<close>

datatype sqlval = SqlInt int | SqlText string

record user =
  u_id :: nat
  username :: string
  email :: string
  password_hash :: string
  full_name :: string
  role :: user_role
  is_active :: bool

record project =
  p_id :: nat
  p_name :: string
  owner_id :: nat

record member =
  m_project_id :: nat
  m_user_id :: nat
  m_role :: member_role

record task =
  t_id :: nat
  title :: string
  description :: "string option"
  project_id :: nat
  assigned_to :: "nat option"
  created_by :: nat
  status :: task_status
  priority :: task_priority
  due_date :: "sqlval option"
  completed_at :: "nat option"
  created_at :: nat
  updated_at :: nat

text \<open>A row of \<^verbatim>\<open>activity_log\<close>, without its free-form \<^verbatim>\<open>details\<close> text.\<close>

record activity =
  a_user_id :: nat
  action :: string
  entity_type :: string
  entity_id :: "nat option"

text \<open>
  The store. \<open>seq_users\<close>, \<open>seq_projects\<close> and \<open>seq_tasks\<close> are the
  \<^verbatim>\<open>sqlite_sequence\<close> counters of the \<^verbatim>\<open>AUTOINCREMENT\<close> keys.
\<close>

record db =
  users :: "user list"
  projects :: "project list"
  members :: "member list"
  tasks :: "task list"
  activity_log :: "activity list"
  seq_users :: nat
  seq_projects :: nat
  seq_tasks :: nat

text \<open>
  What a handler answers when it does not succeed: \<^verbatim>\<open>res.status(s).json({ error: m })\<close>
  is \<open>Failure s m\<close>, and the answer of a failed \<^verbatim>\<open>validationResult\<close>, status 400 with
  the array of field errors, is \<open>ValidationErrors\<close>.
\<close>

datatype failure = Failure nat string | ValidationErrors

definition max_id :: "nat list \<Rightarrow> nat" where
  "max_id ids = fold max ids 0"

text \<open>The key an \<^verbatim>\<open>AUTOINCREMENT\<close> column gives to the next row.\<close>

definition next_id :: "nat \<Rightarrow> nat list \<Rightarrow> nat" where
  "next_id seq ids = Suc (max seq (max_id ids))"

definition getUserById :: "db \<Rightarrow> nat \<Rightarrow> user option" where
  "getUserById d i = find (\<lambda>u. u_id u = i) (users d)"

definition getProjectById :: "db \<Rightarrow> nat \<Rightarrow> project option" where
  "getProjectById d i = find (\<lambda>p. p_id p = i) (projects d)"

definition getTaskById :: "db \<Rightarrow> nat \<Rightarrow> task option" where
  "getTaskById d i = find (\<lambda>t. t_id t = i) (tasks d)"

text \<open>\<^verbatim>\<open>SELECT role FROM project_members WHERE project_id = ? AND user_id = ?\<close>\<close>

definition getMemberRole :: "db \<Rightarrow> nat \<Rightarrow> nat \<Rightarrow> member option" where
  "getMemberRole d pid uid =
     find (\<lambda>m. m_project_id m = pid \<and> m_user_id m = uid) (members d)"

text \<open>
  The access query the task routes repeat: a row of \<^verbatim>\<open>project_members\<close> for the
  project and the user, \<^verbatim>\<open>UNION\<close> a row of \<^verbatim>\<open>projects\<close> with that id owned by the user.
\<close>

definition hasAccess :: "db \<Rightarrow> nat \<Rightarrow> nat \<Rightarrow> bool" where
  "hasAccess d pid uid =
     (list_ex (\<lambda>m. m_project_id m = pid \<and> m_user_id m = uid) (members d) \<or>
      list_ex (\<lambda>p. p_id p = pid \<and> owner_id p = uid) (projects d))"

definition logActivity :: "nat \<Rightarrow> string \<Rightarrow> string \<Rightarrow> nat option \<Rightarrow> db \<Rightarrow> db" where
  "logActivity uid act ety eid d =
     d\<lparr>activity_log := activity_log d @
        [\<lparr>a_user_id = uid, action = act, entity_type = ety, entity_id = eid\<rparr>]\<rparr>"


section \<open>Token service (middleware/auth.js)\<close>

text \<open>
  A token as \<^verbatim>\<open>jwt.decode\<close> shows it: the payload of \<open>generateToken\<close>, the times
  \<^verbatim>\<open>iat\<close> and \<^verbatim>\<open>exp\<close> in seconds, and the secret that signed it. \<^verbatim>\<open>jwt.sign\<close> and
  \<^verbatim>\<open>jwt.verify\<close> belong to the jsonwebtoken package, which the repository only calls.
\<close>

record token =
  tok_userId :: nat
  tok_username :: string
  tok_role :: user_role
  tok_iat :: nat
  tok_exp :: nat
  tok_key :: string

datatype jwt_error = JsonWebTokenError | TokenExpiredError

text \<open>
  Modelled from the spec: \<^verbatim>\<open>jwt.sign\<close> is not in the sources. It "produces a signed,
  time-limited credential embedding user id, username, and global role, with a
  configurable expiry".
\<close>

definition jwt_sign :: "nat \<Rightarrow> string \<Rightarrow> user_role \<Rightarrow> string \<Rightarrow> nat \<Rightarrow> nat \<Rightarrow> token" where
  "jwt_sign userId uname r secret expiresIn now =
     \<lparr>tok_userId = userId, tok_username = uname, tok_role = r,
      tok_iat = now, tok_exp = now + expiresIn, tok_key = secret\<rparr>"

text \<open>
  Modelled from the spec: \<^verbatim>\<open>jwt.verify\<close> is not in the sources. Verification yields
  the decoded token or "fails (Invalid, Expired)": invalid when the token was not signed with
  the secret, expired when the clock has reached \<^verbatim>\<open>exp\<close>.
\<close>

definition jwt_verify :: "token \<Rightarrow> string \<Rightarrow> nat \<Rightarrow> jwt_error + token" where
  "jwt_verify tok secret now =
     (if tok_key tok \<noteq> secret then Inl JsonWebTokenError
      else if tok_exp tok \<le> now then Inl TokenExpiredError
      else Inr tok)"

text \<open>
  The process environment and the packages the routes call: \<^verbatim>\<open>JWT_SECRET\<close>,
  \<^verbatim>\<open>JWT_EXPIRY\<close> in seconds (604800 for the default \<^verbatim>\<open>'7d'\<close>), the validator's
  \<^verbatim>\<open>isEmail\<close>, and bcrypt's \<^verbatim>\<open>hash\<close> (salt first) and \<^verbatim>\<open>compare\<close>.
\<close>

record env =
  JWT_SECRET :: string
  JWT_EXPIRY :: nat
  isEmail :: "string \<Rightarrow> bool"
  bcrypt_hash :: "string \<Rightarrow> string \<Rightarrow> string"
  bcrypt_compare :: "string \<Rightarrow> string \<Rightarrow> bool"

definition generateToken :: "env \<Rightarrow> nat \<Rightarrow> user \<Rightarrow> token" where
  "generateToken e now u =
     jwt_sign (u_id u) (username u) (role u) (JWT_SECRET e) (JWT_EXPIRY e) now"

text \<open>
  \<open>authenticateToken\<close>: the bearer token of the request (\<open>None\<close> when the header is
  missing or has no second word), verified, then the user row read again from the store.
  \<open>Inr u\<close> is \<^verbatim>\<open>req.user = u; next()\<close>.
\<close>

definition authenticateToken :: "env \<Rightarrow> db \<Rightarrow> nat \<Rightarrow> token option \<Rightarrow> failure + user" where
  "authenticateToken e d now hdr =
     (case hdr of
        None \<Rightarrow> Inl (Failure 401 ''Access token required'')
      | Some tok \<Rightarrow>
          (case jwt_verify tok (JWT_SECRET e) now of
             Inl JsonWebTokenError \<Rightarrow> Inl (Failure 401 ''Invalid token'')
           | Inl TokenExpiredError \<Rightarrow> Inl (Failure 401 ''Token expired'')
           | Inr decoded \<Rightarrow>
               (case getUserById d (tok_userId decoded) of
                  None \<Rightarrow> Inl (Failure 401 ''User not found'')
                | Some u \<Rightarrow>
                    if \<not> is_active u then Inl (Failure 401 ''Account is deactivated'')
                    else Inr u)))"

text \<open>
  \<open>refreshTokenMiddleware\<close>: the value of the \<^verbatim>\<open>X-New-Token\<close> header, if it is set. The
  clock is read in whole seconds.
\<close>

definition refreshTokenMiddleware :: "env \<Rightarrow> nat \<Rightarrow> user option \<Rightarrow> token option \<Rightarrow> token option" where
  "refreshTokenMiddleware e now req_user hdr =
     (case req_user of
        None \<Rightarrow> None
      | Some u \<Rightarrow>
          (case hdr of
             None \<Rightarrow> None
           | Some decoded \<Rightarrow>
               if int (tok_exp decoded) - int now < 86400 then Some (generateToken e now u)
               else None))"

definition requireRole :: "user_role list \<Rightarrow> user option \<Rightarrow> failure + user" where
  "requireRole roles req_user =
     (case req_user of
        None \<Rightarrow> Inl (Failure 401 ''Authentication required'')
      | Some u \<Rightarrow>
          if role u \<notin> set roles then Inl (Failure 403 ''Insufficient permissions'')
          else Inr u)"

definition requireAdmin :: "user option \<Rightarrow> failure + user" where
  "requireAdmin = requireRole [Admin]"


section \<open>User routes (routes/users.js)\<close>

text \<open>\<^verbatim>\<open>SELECT COUNT(*) FROM users WHERE role = 'admin' AND is_active = 1\<close>\<close>

definition adminCount :: "db \<Rightarrow> nat" where
  "adminCount d = length (filter (\<lambda>u. role u = Admin \<and> is_active u) (users d))"

definition setRole :: "nat \<Rightarrow> user_role \<Rightarrow> db \<Rightarrow> db" where
  "setRole uid r d =
     d\<lparr>users := map (\<lambda>u. if u_id u = uid then u\<lparr>role := r\<rparr> else u) (users d)\<rparr>"

definition setActive :: "nat \<Rightarrow> bool \<Rightarrow> db \<Rightarrow> db" where
  "setActive uid b d =
     d\<lparr>users := map (\<lambda>u. if u_id u = uid then u\<lparr>is_active := b\<rparr> else u) (users d)\<rparr>"

text \<open>\<^verbatim>\<open>PUT /api/users/:id/role\<close>, with its middleware.\<close>

definition updateUserRole ::
  "env \<Rightarrow> db \<Rightarrow> nat \<Rightarrow> token option \<Rightarrow> nat \<Rightarrow> user_role \<Rightarrow> db \<times> (failure + user)" where
  "updateUserRole e d now hdr userId r =
     (case authenticateToken e d now hdr of
        Inl f \<Rightarrow> (d, Inl f)
      | Inr req_user \<Rightarrow>
          (case requireAdmin (Some req_user) of
             Inl f \<Rightarrow> (d, Inl f)
           | Inr _ \<Rightarrow>
               (case getUserById d userId of
                  None \<Rightarrow> (d, Inl (Failure 404 ''User not found''))
                | Some u \<Rightarrow>
                    if role u = Admin \<and> r \<noteq> Admin \<and> adminCount d \<le> 1
                    then (d, Inl (Failure 400 ''Cannot remove the last admin''))
                    else (logActivity (u_id req_user) ''role_changed'' ''user'' (Some userId)
                            (setRole userId r d),
                          Inr (u\<lparr>role := r\<rparr>)))))"

text \<open>
  \<^verbatim>\<open>PUT /api/users/:id/toggle-active\<close>, with its middleware. The answer of a success is
  the new value of \<^verbatim>\<open>is_active\<close>.
\<close>

definition toggleActive ::
  "env \<Rightarrow> db \<Rightarrow> nat \<Rightarrow> token option \<Rightarrow> nat \<Rightarrow> db \<times> (failure + bool)" where
  "toggleActive e d now hdr userId =
     (case authenticateToken e d now hdr of
        Inl f \<Rightarrow> (d, Inl f)
      | Inr req_user \<Rightarrow>
          (case requireAdmin (Some req_user) of
             Inl f \<Rightarrow> (d, Inl f)
           | Inr _ \<Rightarrow>
               if userId = u_id req_user
               then (d, Inl (Failure 400 ''Cannot deactivate your own account''))
               else
                 (case getUserById d userId of
                    None \<Rightarrow> (d, Inl (Failure 404 ''User not found''))
                  | Some u \<Rightarrow>
                      if is_active u \<and> role u = Admin \<and> adminCount d \<le> 1
                      then (d, Inl (Failure 400 ''Cannot deactivate the last admin''))
                      else
                        (let newStatus = \<not> is_active u in
                           (logActivity (u_id req_user)
                              (if newStatus then ''user_activated'' else ''user_deactivated'')
                              ''user'' (Some userId) (setActive userId newStatus d),
                            Inr newStatus)))))"


section \<open>Authentication routes (routes/auth.js)\<close>

text \<open>
  The request bodies are read after the sanitizers of the validation chain (\<^verbatim>\<open>trim\<close>,
  \<^verbatim>\<open>normalizeEmail\<close>); the checks of the chain are \<open>registerValid\<close>.
\<close>

record register_body =
  r_username :: string
  r_email :: string
  r_password :: string
  r_fullName :: string

text \<open>The character class \<^verbatim>\<open>[a-zA-Z0-9_]\<close>.\<close>

definition isWordChar :: "char \<Rightarrow> bool" where
  "isWordChar c =
     ((CHR ''a'' \<le> c \<and> c \<le> CHR ''z'') \<or> (CHR ''A'' \<le> c \<and> c \<le> CHR ''Z'') \<or>
      (CHR ''0'' \<le> c \<and> c \<le> CHR ''9'') \<or> c = CHR ''_'')"

definition registerValid :: "env \<Rightarrow> register_body \<Rightarrow> bool" where
  "registerValid e b =
     (3 \<le> length (r_username b) \<and> length (r_username b) \<le> 30 \<and>
      list_all isWordChar (r_username b) \<and>
      isEmail e (r_email b) \<and>
      6 \<le> length (r_password b) \<and>
      2 \<le> length (r_fullName b) \<and> length (r_fullName b) \<le> 100)"

text \<open>
  \<^verbatim>\<open>POST /api/auth/register\<close>. \<open>salt\<close> is what \<^verbatim>\<open>bcrypt.genSalt\<close> draws. A success
  answers the created user, the token and \<^verbatim>\<open>isFirstUser\<close>.
\<close>

definition register ::
  "env \<Rightarrow> db \<Rightarrow> nat \<Rightarrow> string \<Rightarrow> register_body \<Rightarrow> db \<times> (failure + user \<times> token \<times> bool)" where
  "register e d now salt b =
     (if \<not> registerValid e b then (d, Inl ValidationErrors)
      else
        (case find (\<lambda>u. username u = r_username b \<or> email u = r_email b) (users d) of
           Some existingUser \<Rightarrow>
             (d, Inl (Failure 409 ''User already exists with this username or email''))
         | None \<Rightarrow>
             (let passwordHash = bcrypt_hash e salt (r_password b);
                  userCount = length (users d);
                  r = (if userCount = 0 then Admin else Member);
                  newId = next_id (seq_users d) (map u_id (users d));
                  d1 = d\<lparr>users := users d @
                          [\<lparr>u_id = newId, username = r_username b, email = r_email b,
                            password_hash = passwordHash, full_name = r_fullName b,
                            role = r, is_active = True\<rparr>],
                        seq_users := newId\<rparr>
              in (case getUserById d1 newId of
                    None \<Rightarrow> (d1, Inl (Failure 500 ''Registration failed''))
                  | Some u \<Rightarrow>
                      (logActivity (u_id u) ''user_registered'' ''user'' (Some (u_id u)) d1,
                       Inr (u, generateToken e now u, userCount = 0))))))"

text \<open>\<^verbatim>\<open>POST /api/auth/login\<close>: \<open>name\<close> is matched against usernames and emails.\<close>

definition login ::
  "env \<Rightarrow> db \<Rightarrow> nat \<Rightarrow> string \<Rightarrow> string \<Rightarrow> db \<times> (failure + user \<times> token)" where
  "login e d now name password =
     (if name = [] \<or> password = [] then (d, Inl ValidationErrors)
      else
        (case find (\<lambda>u. username u = name \<or> email u = name) (users d) of
           None \<Rightarrow> (d, Inl (Failure 401 ''Invalid credentials''))
         | Some u \<Rightarrow>
             if \<not> is_active u then (d, Inl (Failure 401 ''Account is deactivated''))
             else if \<not> bcrypt_compare e password (password_hash u)
             then (d, Inl (Failure 401 ''Invalid credentials''))
             else (logActivity (u_id u) ''user_login'' ''session'' None d,
                   Inr (u, generateToken e now u))))"


section \<open>Task routes (routes/tasks.js)\<close>

subsection \<open>The listing and its order\<close>

record task_query =
  q_projectId :: "nat option"
  q_status :: "task_status option"
  q_priority :: "task_priority option"
  q_assignedTo :: "nat option"
  q_search :: "string option"

definition ascii_upper :: "char \<Rightarrow> char" where
  "ascii_upper c =
     (if CHR ''a'' \<le> c \<and> c \<le> CHR ''z'' then char_of (of_char c - (32 :: nat)) else c)"

text \<open>
  SQLite's \<^verbatim>\<open>LIKE\<close>: \<^verbatim>\<open>%\<close> stands for any run of characters, \<^verbatim>\<open>_\<close> for one
  character, and ASCII letters match in either case.
\<close>

fun like :: "string \<Rightarrow> string \<Rightarrow> bool" where
  "like [] s = (s = [])"
| "like (p # ps) [] = (p = CHR ''%'' \<and> like ps [])"
| "like (p # ps) (c # cs) =
     (if p = CHR ''%'' then like ps (c # cs) \<or> like (p # ps) cs
      else (p = CHR ''_'' \<or> ascii_upper p = ascii_upper c) \<and> like ps cs)"

text \<open>
  The \<^verbatim>\<open>WHERE\<close> clause of \<^verbatim>\<open>GET /api/tasks\<close>: the join with the task's project, the
  access condition, and one condition for each filter of the query that is set.
\<close>

definition taskSelected :: "db \<Rightarrow> nat \<Rightarrow> task_query \<Rightarrow> task \<Rightarrow> bool" where
  "taskSelected d userId q t =
     (list_ex (\<lambda>p. p_id p = project_id t) (projects d) \<and>
      hasAccess d (project_id t) userId \<and>
      (case q_projectId q of None \<Rightarrow> True | Some p \<Rightarrow> project_id t = p) \<and>
      (case q_status q of None \<Rightarrow> True | Some s \<Rightarrow> status t = s) \<and>
      (case q_priority q of None \<Rightarrow> True | Some p \<Rightarrow> priority t = p) \<and>
      (case q_assignedTo q of None \<Rightarrow> True | Some a \<Rightarrow> assigned_to t = Some a) \<and>
      (case q_search q of
         None \<Rightarrow> True
       | Some s \<Rightarrow>
           s = [] \<or> like (''%'' @ s @ ''%'') (title t) \<or>
           (case description t of None \<Rightarrow> False | Some ds \<Rightarrow> like (''%'' @ s @ ''%'') ds)))"

text \<open>\<^verbatim>\<open>CASE t.priority WHEN 'urgent' THEN 1 WHEN 'high' THEN 2 WHEN 'medium' THEN 3 WHEN 'low' THEN 4 END\<close>\<close>

fun priority_rank :: "task_priority \<Rightarrow> nat" where
  "priority_rank Urgent = 1"
| "priority_rank High = 2"
| "priority_rank Medium = 3"
| "priority_rank Low = 4"

text \<open>SQLite's order on stored values: an integer sorts before a text.\<close>

fun sql_less :: "sqlval \<Rightarrow> sqlval \<Rightarrow> bool" where
  "sql_less (SqlInt a) (SqlInt b) = (a < b)"
| "sql_less (SqlInt a) (SqlText b) = True"
| "sql_less (SqlText a) (SqlInt b) = False"
| "sql_less (SqlText a) (SqlText b) = (a < b)"

text \<open>\<^verbatim>\<open>ASC NULLS LAST\<close>\<close>

fun asc_nulls_last :: "sqlval option \<Rightarrow> sqlval option \<Rightarrow> bool" where
  "asc_nulls_last (Some a) (Some b) = sql_less a b"
| "asc_nulls_last (Some a) None = True"
| "asc_nulls_last None b = False"

text \<open>
  The \<^verbatim>\<open>ORDER BY\<close> clause of the listing, as the relation "sorts strictly before":
  the first of its three terms on which the two rows differ decides.
\<close>

definition order_before :: "task \<Rightarrow> task \<Rightarrow> bool" where
  "order_before a b =
     (priority_rank (priority a) < priority_rank (priority b) \<or>
      (priority_rank (priority a) = priority_rank (priority b) \<and>
       (asc_nulls_last (due_date a) (due_date b) \<or>
        (due_date a = due_date b \<and> created_at b < created_at a))))"

fun insert_task :: "task \<Rightarrow> task list \<Rightarrow> task list" where
  "insert_task x [] = [x]"
| "insert_task x (y # ys) =
     (if order_before y x then y # insert_task x ys else x # y # ys)"

definition order_by :: "task list \<Rightarrow> task list" where
  "order_by ts = foldr insert_task ts []"

text \<open>\<^verbatim>\<open>GET /api/tasks\<close>\<close>

definition getTasks :: "env \<Rightarrow> db \<Rightarrow> nat \<Rightarrow> token option \<Rightarrow> task_query \<Rightarrow> failure + task list" where
  "getTasks e d now hdr q =
     (case authenticateToken e d now hdr of
        Inl f \<Rightarrow> Inl f
      | Inr req_user \<Rightarrow> Inr (order_by (filter (taskSelected d (u_id req_user) q) (tasks d))))"

subsection \<open>Reading, creating and updating a task\<close>

text \<open>\<^verbatim>\<open>GET /api/tasks/:id\<close>; the comments of the task are left out of the answer.\<close>

definition getTask :: "env \<Rightarrow> db \<Rightarrow> nat \<Rightarrow> token option \<Rightarrow> nat \<Rightarrow> failure + task" where
  "getTask e d now hdr taskId =
     (case authenticateToken e d now hdr of
        Inl f \<Rightarrow> Inl f
      | Inr req_user \<Rightarrow>
          (case find (\<lambda>t. t_id t = taskId \<and> list_ex (\<lambda>p. p_id p = project_id t) (projects d))
                  (tasks d) of
             None \<Rightarrow> Inl (Failure 404 ''Task not found'')
           | Some t \<Rightarrow>
               if \<not> hasAccess d (project_id t) (u_id req_user)
               then Inl (Failure 403 ''Access denied'')
               else Inr t))"

text \<open>
  The body of \<^verbatim>\<open>POST /api/tasks\<close>. \<open>b_dueDate\<close> is the value of \<^verbatim>\<open>dueDate\<close> as the
  column \<^verbatim>\<open>due_date\<close> stores it: \<^verbatim>\<open>"2025"\<close> is \<open>SqlInt 2025\<close>, and
  \<^verbatim>\<open>"2024-01-05"\<close> is \<open>SqlText ''2024-01-05''\<close>.
\<close>

record task_body =
  b_title :: string
  b_projectId :: nat
  b_description :: "string option"
  b_assignedTo :: "nat option"
  b_priority :: "task_priority option"
  b_status :: "task_status option"
  b_dueDate :: "sqlval option"

text \<open>
  The foreign keys of \<^verbatim>\<open>tasks\<close> (\<^verbatim>\<open>PRAGMA foreign_keys = ON\<close>): a statement that would
  break one raises, and the handler answers 500.
\<close>

definition task_fk :: "db \<Rightarrow> task \<Rightarrow> bool" where
  "task_fk d t =
     (list_ex (\<lambda>p. p_id p = project_id t) (projects d) \<and>
      list_ex (\<lambda>u. u_id u = created_by t) (users d) \<and>
      (case assigned_to t of None \<Rightarrow> True | Some a \<Rightarrow> list_ex (\<lambda>u. u_id u = a) (users d)))"

text \<open>
  \<^verbatim>\<open>POST /api/tasks\<close>. \<^verbatim>\<open>if (assignedTo)\<close> and \<^verbatim>\<open>x || null\<close> take the number 0 and the
  empty string for an absent value.
\<close>

definition createTask ::
  "env \<Rightarrow> db \<Rightarrow> nat \<Rightarrow> token option \<Rightarrow> task_body \<Rightarrow> db \<times> (failure + task option)" where
  "createTask e d now hdr b =
     (case authenticateToken e d now hdr of
        Inl f \<Rightarrow> (d, Inl f)
      | Inr req_user \<Rightarrow>
          if \<not> (1 \<le> length (b_title b) \<and> length (b_title b) \<le> 200 \<and>
                 (case b_description b of None \<Rightarrow> True | Some ds \<Rightarrow> length ds \<le> 2000))
          then (d, Inl ValidationErrors)
          else if \<not> hasAccess d (b_projectId b) (u_id req_user)
          then (d, Inl (Failure 403 ''No access to this project''))
          else if (case b_assignedTo b of
                     None \<Rightarrow> False
                   | Some a \<Rightarrow> a \<noteq> 0 \<and> \<not> hasAccess d (b_projectId b) a)
          then (d, Inl (Failure 400 ''Assigned user is not a project member''))
          else
            (let newId = next_id (seq_tasks d) (map t_id (tasks d));
                 row = \<lparr>t_id = newId, title = b_title b,
                        description = (case b_description b of
                                         None \<Rightarrow> None
                                       | Some ds \<Rightarrow> if ds = [] then None else Some ds),
                        project_id = b_projectId b,
                        assigned_to = (case b_assignedTo b of
                                         None \<Rightarrow> None
                                       | Some a \<Rightarrow> if a = 0 then None else Some a),
                        created_by = u_id req_user,
                        status = (case b_status b of None \<Rightarrow> Todo | Some s \<Rightarrow> s),
                        priority = (case b_priority b of None \<Rightarrow> Medium | Some p \<Rightarrow> p),
                        due_date = b_dueDate b,
                        completed_at = None, created_at = now, updated_at = now\<rparr>
             in if \<not> task_fk d row then (d, Inl (Failure 500 ''Failed to create task''))
                else
                  (let d1 = d\<lparr>tasks := tasks d @ [row], seq_tasks := newId\<rparr>
                   in (logActivity (u_id req_user) ''task_created'' ''task'' (Some newId) d1,
                       Inr (getTaskById d1 newId)))))"

record task_updates =
  up_title :: "string option"
  up_description :: "string option"
  up_assignedTo :: "nat option"
  up_priority :: "task_priority option"
  up_status :: "task_status option"
  up_dueDate :: "sqlval option"

text \<open>
  The \<^verbatim>\<open>UPDATE tasks SET ...\<close> statement that \<^verbatim>\<open>PUT /api/tasks/:id\<close> builds, on one
  row: every field of the request that is present is written, a status brings
  \<^verbatim>\<open>completed_at\<close> with it, and the trigger stamps \<^verbatim>\<open>updated_at\<close>.
\<close>

definition applyUpdates :: "nat \<Rightarrow> task_updates \<Rightarrow> task \<Rightarrow> task" where
  "applyUpdates now up t =
     t\<lparr>title := (case up_title up of None \<Rightarrow> title t | Some x \<Rightarrow> x),
       description := (case up_description up of None \<Rightarrow> description t | Some x \<Rightarrow> Some x),
       assigned_to := (case up_assignedTo up of None \<Rightarrow> assigned_to t | Some a \<Rightarrow> Some a),
       priority := (case up_priority up of None \<Rightarrow> priority t | Some p \<Rightarrow> p),
       status := (case up_status up of None \<Rightarrow> status t | Some s \<Rightarrow> s),
       completed_at := (case up_status up of
                          None \<Rightarrow> completed_at t
                        | Some s \<Rightarrow> if s = Done then Some now else None),
       due_date := (case up_dueDate up of None \<Rightarrow> due_date t | Some x \<Rightarrow> Some x),
       updated_at := now\<rparr>"

definition noFields :: "task_updates \<Rightarrow> bool" where
  "noFields up =
     (up_title up = None \<and> up_description up = None \<and> up_assignedTo up = None \<and>
      up_priority up = None \<and> up_status up = None \<and> up_dueDate up = None)"

text \<open>
  \<^verbatim>\<open>PUT /api/tasks/:id\<close>. The only foreign key the statement can break is the one of
  \<^verbatim>\<open>assigned_to\<close>.
\<close>

definition updateTask ::
  "env \<Rightarrow> db \<Rightarrow> nat \<Rightarrow> token option \<Rightarrow> nat \<Rightarrow> task_updates \<Rightarrow> db \<times> (failure + task option)" where
  "updateTask e d now hdr taskId up =
     (case authenticateToken e d now hdr of
        Inl f \<Rightarrow> (d, Inl f)
      | Inr req_user \<Rightarrow>
          if \<not> ((case up_title up of None \<Rightarrow> True | Some x \<Rightarrow> 1 \<le> length x \<and> length x \<le> 200) \<and>
                 (case up_description up of None \<Rightarrow> True | Some ds \<Rightarrow> length ds \<le> 2000))
          then (d, Inl ValidationErrors)
          else
            (case getTaskById d taskId of
               None \<Rightarrow> (d, Inl (Failure 404 ''Task not found''))
             | Some t \<Rightarrow>
                 if \<not> hasAccess d (project_id t) (u_id req_user)
                 then (d, Inl (Failure 403 ''No access to this task''))
                 else if noFields up then (d, Inl (Failure 400 ''No fields to update''))
                 else if (case up_assignedTo up of
                            None \<Rightarrow> False
                          | Some a \<Rightarrow> \<not> list_ex (\<lambda>u. u_id u = a) (users d))
                 then (d, Inl (Failure 500 ''Failed to update task''))
                 else
                   (let d1 = d\<lparr>tasks := map (\<lambda>x. if t_id x = taskId then applyUpdates now up x
                                                 else x) (tasks d)\<rparr>
                    in (logActivity (u_id req_user) ''task_updated'' ''task'' (Some taskId) d1,
                        Inr (getTaskById d1 taskId)))))"


section \<open>Project routes (routes/projects.js)\<close>

text \<open>
  \<^verbatim>\<open>POST /api/projects\<close>: the project row, then the owner's row in
  \<^verbatim>\<open>project_members\<close> with role \<^verbatim>\<open>'owner'\<close>. Description and colour are not kept.
\<close>

definition createProject ::
  "env \<Rightarrow> db \<Rightarrow> nat \<Rightarrow> token option \<Rightarrow> string \<Rightarrow> db \<times> (failure + project option)" where
  "createProject e d now hdr name =
     (case authenticateToken e d now hdr of
        Inl f \<Rightarrow> (d, Inl f)
      | Inr req_user \<Rightarrow>
          if \<not> (1 \<le> length name \<and> length name \<le> 100) then (d, Inl ValidationErrors)
          else
            (let newId = next_id (seq_projects d) (map p_id (projects d));
                 d1 = d\<lparr>projects := projects d @
                          [\<lparr>p_id = newId, p_name = name, owner_id = u_id req_user\<rparr>],
                        seq_projects := newId\<rparr>;
                 d2 = d1\<lparr>members := members d1 @
                          [\<lparr>m_project_id = newId, m_user_id = u_id req_user, m_role = POwner\<rparr>]\<rparr>
             in (logActivity (u_id req_user) ''project_created'' ''project'' (Some newId) d2,
                 Inr (getProjectById d2 newId))))"

text \<open>\<^verbatim>\<open>DELETE /api/projects/:id/members/:userId\<close>\<close>

definition removeMember ::
  "env \<Rightarrow> db \<Rightarrow> nat \<Rightarrow> token option \<Rightarrow> nat \<Rightarrow> nat \<Rightarrow> db \<times> (failure + unit)" where
  "removeMember e d now hdr projectId memberToRemove =
     (case authenticateToken e d now hdr of
        Inl f \<Rightarrow> (d, Inl f)
      | Inr req_user \<Rightarrow>
          (case getProjectById d projectId of
             None \<Rightarrow> (d, Inl (Failure 404 ''Project not found''))
           | Some p \<Rightarrow>
               if memberToRemove = owner_id p
               then (d, Inl (Failure 400 ''Cannot remove project owner''))
               else if memberToRemove \<noteq> u_id req_user \<and> owner_id p \<noteq> u_id req_user \<and>
                       (case getMemberRole d projectId (u_id req_user) of
                          None \<Rightarrow> True
                        | Some currentUserRole \<Rightarrow> m_role currentUserRole \<notin> set [POwner, PAdmin])
               then (d, Inl (Failure 403 ''Permission denied''))
               else
                 (let changes = length (filter (\<lambda>m. m_project_id m = projectId \<and>
                                                      m_user_id m = memberToRemove) (members d));
                      d1 = d\<lparr>members := filter (\<lambda>m. \<not> (m_project_id m = projectId \<and>
                                                         m_user_id m = memberToRemove)) (members d)\<rparr>
                  in if changes = 0 then (d1, Inl (Failure 404 ''Member not found in project''))
                     else (logActivity (u_id req_user) ''member_removed'' ''project''
                             (Some projectId) d1,
                           Inr ()))))"


section \<open>Example store\<close>

text \<open>
  alice (1) is the administrator and owns project 1, "Launch"; bob (2) is a member of
  the system but not of the project; carol (3) is a member of the project; dave (4) is a
  deactivated account. Task 1, "Write docs", belongs to the project.
\<close>

definition env0 :: env where
  "env0 = \<lparr>JWT_SECRET = ''secret'', JWT_EXPIRY = 604800,
           isEmail = (\<lambda>s. CHR ''@'' \<in> set s),
           bcrypt_hash = (\<lambda>salt pw. salt @ pw),
           bcrypt_compare = (\<lambda>pw h. drop 2 h = pw)\<rparr>"

definition alice :: user where
  "alice = \<lparr>u_id = 1, username = ''alice'', email = ''alice@x.org'', password_hash = ''s1wonderland'',
            full_name = ''Alice A'', role = Admin, is_active = True\<rparr>"

definition bob :: user where
  "bob = \<lparr>u_id = 2, username = ''bob'', email = ''bob@x.org'', password_hash = ''s2builder'',
          full_name = ''Bob B'', role = Member, is_active = True\<rparr>"

definition carol :: user where
  "carol = \<lparr>u_id = 3, username = ''carol'', email = ''carol@x.org'', password_hash = ''s3singing'',
            full_name = ''Carol C'', role = Member, is_active = True\<rparr>"

definition dave :: user where
  "dave = \<lparr>u_id = 4, username = ''dave'', email = ''dave@x.org'', password_hash = ''s4daveda'',
           full_name = ''Dave D'', role = Member, is_active = False\<rparr>"

definition task1 :: task where
  "task1 = \<lparr>t_id = 1, title = ''Write docs'', description = None, project_id = 1,
            assigned_to = Some 1, created_by = 1, status = Todo, priority = Medium,
            due_date = None, completed_at = None, created_at = 100, updated_at = 100\<rparr>"

definition db0 :: db where
  "db0 = \<lparr>users = [alice, bob, carol, dave],
          projects = [\<lparr>p_id = 1, p_name = ''Launch'', owner_id = 1\<rparr>],
          members = [\<lparr>m_project_id = 1, m_user_id = 1, m_role = POwner\<rparr>,
                     \<lparr>m_project_id = 1, m_user_id = 3, m_role = PMember\<rparr>],
          tasks = [task1],
          activity_log = [],
          seq_users = 4, seq_projects = 1, seq_tasks = 1\<rparr>"

definition tokenOf :: "user \<Rightarrow> token" where
  "tokenOf u = generateToken env0 1000 u"


text \<open>Requests used in the examples.\<close>

definition reassign_bob :: task_updates where
  "reassign_bob = \<lparr>up_title = None, up_description = None, up_assignedTo = Some 2,
                    up_priority = None, up_status = None, up_dueDate = None\<rparr>"

definition body_for_bob :: task_body where
  "body_for_bob = \<lparr>b_title = ''Review docs'', b_projectId = 1, b_description = None,
                    b_assignedTo = Some 2, b_priority = None, b_status = None, b_dueDate = None\<rparr>"

definition body_done :: task_body where
  "body_done = \<lparr>b_title = ''Ship'', b_projectId = 1, b_description = None,
                 b_assignedTo = None, b_priority = None, b_status = Some Done, b_dueDate = None\<rparr>"

definition task_done :: task where
  "task_done = \<lparr>t_id = 2, title = ''Ship'', description = None, project_id = 1,
                 assigned_to = None, created_by = 1, status = Done, priority = Medium,
                 due_date = None, completed_at = None, created_at = 2000, updated_at = 2000\<rparr>"


definition db_empty :: db where
  "db_empty = \<lparr>users = [], projects = [], members = [], tasks = [], activity_log = [],
               seq_users = 0, seq_projects = 0, seq_tasks = 0\<rparr>"

definition reg_alice :: register_body where
  "reg_alice = \<lparr>r_username = ''alice'', r_email = ''alice@x.org'', r_password = ''wonderland'',
                 r_fullName = ''Alice A''\<rparr>"

definition reg_erin :: register_body where
  "reg_erin = \<lparr>r_username = ''erin'', r_email = ''erin@x.org'', r_password = ''evergreen'',
                r_fullName = ''Erin E''\<rparr>"

definition erin :: user where
  "erin = \<lparr>u_id = 5, username = ''erin'', email = ''erin@x.org'', password_hash = ''s5evergreen'',
           full_name = ''Erin E'', role = Member, is_active = True\<rparr>"


definition db_side :: db where
  "db_side = db0\<lparr>projects := projects db0 @ [\<lparr>p_id = 2, p_name = ''Side'', owner_id = 2\<rparr>],
                 members := members db0 @ [\<lparr>m_project_id = 2, m_user_id = 2, m_role = POwner\<rparr>],
                 activity_log := [\<lparr>a_user_id = 2, action = ''project_created'',
                                   entity_type = ''project'', entity_id = Some 2\<rparr>],
                 seq_projects := 2\<rparr>"


text \<open>
  Three tasks of high priority for project 1, as three requests to \<^verbatim>\<open>POST /api/tasks\<close>
  store them, with the due dates \<^verbatim>\<open>"2024-01-06T01:00:00+00:00"\<close>,
  \<^verbatim>\<open>"2024-01-05T23:00:00-05:00"\<close> and \<^verbatim>\<open>"2025"\<close>.
\<close>

definition body_due :: "string \<Rightarrow> sqlval \<Rightarrow> task_body" where
  "body_due t v = \<lparr>b_title = t, b_projectId = 1, b_description = None, b_assignedTo = None,
                   b_priority = Some High, b_status = None, b_dueDate = Some v\<rparr>"

definition task_due :: "nat \<Rightarrow> string \<Rightarrow> sqlval \<Rightarrow> nat \<Rightarrow> task" where
  "task_due i t v c =
     \<lparr>t_id = i, title = t, description = None, project_id = 1, assigned_to = None,
      created_by = 1, status = Todo, priority = High, due_date = Some v, completed_at = None,
      created_at = c, updated_at = c\<rparr>"

definition task_a :: task where
  "task_a = task_due 2 ''A'' (SqlText ''2024-01-06T01:00:00+00:00'') 2000"

definition task_b :: task where
  "task_b = task_due 3 ''B'' (SqlText ''2024-01-05T23:00:00-05:00'') 2001"

definition task_c :: task where
  "task_c = task_due 4 ''C'' (SqlInt 2025) 2002"

definition db_due1 :: db where
  "db_due1 = logActivity 1 ''task_created'' ''task'' (Some 2)
               (db0\<lparr>tasks := [task1, task_a], seq_tasks := 2\<rparr>)"

definition db_due2 :: db where
  "db_due2 = logActivity 1 ''task_created'' ''task'' (Some 3)
               (db_due1\<lparr>tasks := [task1, task_a, task_b], seq_tasks := 3\<rparr>)"

definition db_due3 :: db where
  "db_due3 = logActivity 1 ''task_created'' ''task'' (Some 4)
               (db_due2\<lparr>tasks := [task1, task_a, task_b, task_c], seq_tasks := 4\<rparr>)"

definition q_high :: task_query where
  "q_high = \<lparr>q_projectId = None, q_status = None, q_priority = Some High, q_assignedTo = None,
             q_search = None\<rparr>"


section \<open>Properties\<close>

lemmas example_defs =
  env0_def alice_def bob_def carol_def dave_def task1_def db0_def tokenOf_def
  generateToken_def jwt_sign_def

lemmas auth_defs =
  authenticateToken_def jwt_verify_def getUserById_def requireAdmin_def requireRole_def

subsection \<open>Auxiliary facts\<close>

lemma auth_Inr:
  assumes "authenticateToken e d now hdr = Inr a"
  shows "a \<in> set (users d) \<and> is_active a \<and>
         (\<exists>tok. hdr = Some tok \<and> getUserById d (tok_userId tok) = Some a)"
  using assms
  by (auto simp: authenticateToken_def jwt_verify_def getUserById_def find_Some_iff
           split: option.splits sum.splits jwt_error.splits if_splits)

lemma getUserById_Some:
  "getUserById d i = Some u \<Longrightarrow> u \<in> set (users d) \<and> u_id u = i"
  by (auto simp: getUserById_def find_Some_iff)

lemma adminCount_pos:
  "0 < adminCount d \<longleftrightarrow> (\<exists>u \<in> set (users d). role u = Admin \<and> is_active u)"
  by (auto simp: adminCount_def filter_empty_conv)

lemma adminCount_logActivity [simp]: "adminCount (logActivity uid act ety eid d) = adminCount d"
  by (simp add: adminCount_def logActivity_def)

lemma filter_key_le_one:
  "distinct (map f xs) \<Longrightarrow> length (filter (\<lambda>x. f x = k) xs) \<le> 1"
proof (induction xs)
  case Nil
  show ?case by simp
next
  case (Cons a xs)
  show ?case
  proof (cases "f a = k")
    case True
    with Cons.prems have "filter (\<lambda>x. f x = k) xs = []"
      by (force simp: filter_empty_conv image_iff)
    with True show ?thesis by simp
  next
    case False
    with Cons show ?thesis by simp
  qed
qed

lemma adminCount_posI:
  "u \<in> set (users d) \<Longrightarrow> role u = Admin \<Longrightarrow> is_active u \<Longrightarrow> 0 < adminCount d"
  by (auto simp: adminCount_def filter_empty_conv)

lemma two_admins_other:
  assumes "distinct (map f xs)" and "2 \<le> length (filter P xs)"
  shows "\<exists>x \<in> set xs. P x \<and> f x \<noteq> k"
proof (rule ccontr)
  assume "\<not> ?thesis"
  then have "\<forall>x \<in> set (filter P xs). f x = k" by auto
  then have "filter (\<lambda>x. f x = k) (filter P xs) = filter P xs"
    by (rule filter_True)
  then have "length (filter P xs) = length (filter (\<lambda>x. f x = k) (filter P xs))" by simp
  also have "\<dots> \<le> 1"
    using assms(1) by (intro filter_key_le_one) (simp add: distinct_map_filter)
  finally show False using assms(2) by simp
qed

lemma setRole_other:
  "u \<in> set (users d) \<Longrightarrow> u_id u \<noteq> uid \<Longrightarrow> u \<in> set (users (setRole uid r d))"
  by (force simp: setRole_def)

lemma setActive_other:
  "u \<in> set (users d) \<Longrightarrow> u_id u \<noteq> uid \<Longrightarrow> u \<in> set (users (setActive uid b d))"
  by (force simp: setActive_def)

lemma setRole_admin:
  "u \<in> set (users d) \<Longrightarrow> u\<lparr>role := Admin\<rparr> \<in> set (users (setRole (u_id u) Admin d))"
  by (force simp: setRole_def)

lemma role_success_keeps_admin:
  assumes pk: "distinct (map u_id (users d))"
    and ok: "updateUserRole e d now hdr uid r = (d', Inr x)"
  shows "0 < adminCount d'"
proof -
  from ok obtain a u where a: "authenticateToken e d now hdr = Inr a" and adm: "role a = Admin"
    and u: "getUserById d uid = Some u"
    and chk: "\<not> (role u = Admin \<and> r \<noteq> Admin \<and> adminCount d \<le> 1)"
    and d': "d' = logActivity (u_id a) ''role_changed'' ''user'' (Some uid) (setRole uid r d)"
    by (auto simp: updateUserRole_def requireAdmin_def requireRole_def
             split: sum.splits option.splits if_splits)
  from auth_Inr [OF a] have ain: "a \<in> set (users d)" and act: "is_active a" by auto
  show ?thesis
  proof (cases "u_id a = uid")
    case False
    with ain have "a \<in> set (users (setRole uid r d))" by (rule setRole_other)
    with adm act show ?thesis unfolding d' by (auto simp: adminCount_pos)
  next
    case True
    show ?thesis
    proof (cases "r = Admin")
      case True
      from ain have "a\<lparr>role := Admin\<rparr> \<in> set (users (setRole (u_id a) Admin d))"
        by (rule setRole_admin)
      with \<open>u_id a = uid\<close> True have "a\<lparr>role := Admin\<rparr> \<in> set (users (setRole uid r d))"
        by simp
      from adminCount_posI [OF this] act show ?thesis unfolding d' by simp
    next
      case False
      from u True ain pk have "u = a"
        using getUserById_Some [OF u] by (auto simp: distinct_map inj_on_def)
      with chk adm False have "2 \<le> adminCount d" by simp
      then obtain b where "b \<in> set (users d)" "role b = Admin \<and> is_active b" "u_id b \<noteq> uid"
        using two_admins_other [OF pk, of "\<lambda>u. role u = Admin \<and> is_active u" uid]
        by (auto simp: adminCount_def)
      then show ?thesis
        unfolding d' using setRole_other [of b d uid r] by (auto simp: adminCount_pos)
    qed
  qed
qed

lemma toggle_success_keeps_admin:
  assumes ok: "toggleActive e d now hdr uid = (d', Inr x)"
  shows "0 < adminCount d'"
proof -
  from ok obtain a act b where a: "authenticateToken e d now hdr = Inr a" and adm: "role a = Admin"
    and ne: "uid \<noteq> u_id a"
    and d': "d' = logActivity (u_id a) act ''user'' (Some uid) (setActive uid b d)"
    by (auto simp: toggleActive_def requireAdmin_def requireRole_def Let_def
             split: sum.splits option.splits if_splits)
  from auth_Inr [OF a] have ain: "a \<in> set (users d)" and act: "is_active a" by auto
  from ain ne have "a \<in> set (users (setActive uid b d))" by (intro setActive_other) auto
  with adm act show ?thesis unfolding d' by (auto simp: adminCount_pos)
qed

lemma demote_last_refused:
  assumes pk: "distinct (map u_id (users d))"
    and a: "authenticateToken e d now hdr = Inr a" and adm: "role a = Admin"
    and z: "adminCount (setRole uid r d) = 0"
  shows "updateUserRole e d now hdr uid r = (d, Inl (Failure 400 ''Cannot remove the last admin''))"
proof -
  from auth_Inr [OF a] obtain tok :: token where ain: "a \<in> set (users d)" and act: "is_active a"
    and g: "getUserById d (tok_userId tok) = Some a" by auto
  have other: "\<And>b. b \<in> set (users d) \<Longrightarrow> role b = Admin \<Longrightarrow> is_active b \<Longrightarrow> u_id b = uid"
  proof (rule ccontr)
    fix b assume b: "b \<in> set (users d)" "role b = Admin" "is_active b" "u_id b \<noteq> uid"
    then have "b \<in> set (users (setRole uid r d))" by (intro setRole_other)
    with b have "0 < adminCount (setRole uid r d)" by (auto simp: adminCount_pos)
    with z show False by simp
  qed
  from other [OF ain adm act] have id: "u_id a = uid" .
  have rne: "r \<noteq> Admin"
  proof
    assume "r = Admin"
    with ain id have "a\<lparr>role := Admin\<rparr> \<in> set (users (setRole uid r d))" using setRole_admin [of a d] by simp
    from adminCount_posI [OF this] act have "0 < adminCount (setRole uid r d)" by simp
    with z show False by simp
  qed
  from g id getUserById_Some [OF g] have gu: "getUserById d uid = Some a" by simp
  have "adminCount d \<le> 1"
  proof (rule ccontr)
    assume "\<not> adminCount d \<le> 1"
    then have "2 \<le> length (filter (\<lambda>u. role u = Admin \<and> is_active u) (users d))"
      by (simp add: adminCount_def)
    from two_admins_other [OF pk this, of uid] other show False by auto
  qed
  with gu adm rne a show ?thesis
    by (simp add: updateUserRole_def requireAdmin_def requireRole_def)
qed

lemma deactivate_last_refused:
  assumes a: "authenticateToken e d now hdr = Inr a" and adm: "role a = Admin"
    and z: "adminCount (setActive uid False d) = 0"
  shows "toggleActive e d now hdr uid = (d, Inl (Failure 400 ''Cannot deactivate your own account''))"
proof -
  from auth_Inr [OF a] have ain: "a \<in> set (users d)" and act: "is_active a" by auto
  have "u_id a = uid"
  proof (rule ccontr)
    assume "u_id a \<noteq> uid"
    with ain have "a \<in> set (users (setActive uid False d))" by (intro setActive_other)
    with adm act have "0 < adminCount (setActive uid False d)" by (auto simp: adminCount_pos)
    with z show False by simp
  qed
  with a adm show ?thesis
    by (auto simp: toggleActive_def requireAdmin_def requireRole_def)
qed

lemma find_conj_Some:
  "find P xs = Some x \<Longrightarrow> Q x \<Longrightarrow> find (\<lambda>y. P y \<and> Q y) xs = Some x"
  by (induction xs) (auto split: if_splits)

lemma find_conj_None:
  "find P xs = None \<Longrightarrow> find (\<lambda>y. P y \<and> Q y) xs = None"
  by (induction xs) (auto split: if_splits)

lemma fold_max_ge: "x \<in> set ids \<or> x \<le> a \<Longrightarrow> x \<le> fold max ids (a :: nat)"
proof (induction ids arbitrary: a)
  case Nil
  then show ?case by simp
next
  case (Cons y ys)
  from Cons.prems have "x \<in> set ys \<or> x \<le> max y a" by auto
  then have "x \<le> fold max ys (max y a)" by (rule Cons.IH)
  then show ?case by simp
qed

lemma max_id_ge: "x \<in> set ids \<Longrightarrow> x \<le> max_id ids"
  by (simp add: max_id_def fold_max_ge)

lemma next_id_fresh: "next_id seq ids \<notin> set ids"
proof
  assume "next_id seq ids \<in> set ids"
  then have "next_id seq ids \<le> max_id ids" by (rule max_id_ge)
  then show False by (simp add: next_id_def)
qed

lemma find_append_new:
  "find P xs = None \<Longrightarrow> P x \<Longrightarrow> find P (xs @ [x]) = Some x"
  by (induction xs) (auto split: if_splits)

lemma find_id_fresh:
  "k \<notin> set (map f xs) \<Longrightarrow> find (\<lambda>x. f x = k) xs = None"
  by (auto simp: find_None_iff)

lemma register_success:
  assumes "register e d now salt b = (d', Inr (u, tok, first))"
  shows "u = \<lparr>u_id = next_id (seq_users d) (map u_id (users d)), username = r_username b,
              email = r_email b, password_hash = bcrypt_hash e salt (r_password b),
              full_name = r_fullName b,
              role = (if users d = [] then Admin else Member), is_active = True\<rparr>"
    and "users d' = users d @ [u]"
    and "tok = generateToken e now u"
    and "first = (users d = [])"
proof -
  let ?k = "next_id (seq_users d) (map u_id (users d))"
  let ?row = "\<lparr>u_id = ?k, username = r_username b,
              email = r_email b, password_hash = bcrypt_hash e salt (r_password b),
              full_name = r_fullName b,
              role = (if users d = [] then Admin else Member), is_active = True\<rparr>"
  have "find (\<lambda>x. u_id x = ?k) (users d) = None"
    using next_id_fresh [of "seq_users d" "map u_id (users d)"] by (intro find_id_fresh)
  then have f: "find (\<lambda>x. u_id x = ?k) (users d @ [?row]) = Some ?row"
    by (rule find_append_new) simp
  have v: "registerValid e b"
    using assms by (cases "registerValid e b") (simp_all add: register_def)
  have n: "find (\<lambda>u. username u = r_username b \<or> email u = r_email b) (users d) = None"
    using assms v
    by (cases "find (\<lambda>u. username u = r_username b \<or> email u = r_email b) (users d)")
       (simp_all add: register_def)
  have R: "register e d now salt b =
          (logActivity ?k ''user_registered'' ''user'' (Some ?k)
             (d\<lparr>users := users d @ [?row], seq_users := ?k\<rparr>),
           Inr (?row, generateToken e now ?row, users d = []))"
    using v n f by (simp add: register_def Let_def getUserById_def)
  from assms [unfolded R] have d': "d' = logActivity ?k ''user_registered'' ''user'' (Some ?k)
             (d\<lparr>users := users d @ [?row], seq_users := ?k\<rparr>)"
    and u: "u = ?row" and t: "tok = generateToken e now ?row" and fi: "first = (users d = [])"
    by blast+
  from u show "u = ?row" .
  from d' u show "users d' = users d @ [u]" by (simp add: logActivity_def)
  from t u show "tok = generateToken e now u" by simp
  from fi show "first = (users d = [])" .
qed

lemma find_Some_filter_pos:
  "find P xs = Some x \<Longrightarrow> 0 < length (filter P xs)"
  by (induction xs) (auto split: if_splits)

lemma find_unique:
  "distinct (map f xs) \<Longrightarrow> x \<in> set xs \<Longrightarrow> find (\<lambda>y. f y = f x) xs = Some x"
  by (induction xs) (auto simp: image_iff)

lemma verify_generated:
  assumes "getUserById d (u_id u) = Some u" and "is_active u" and "t < now + JWT_EXPIRY e"
  shows "authenticateToken e d t (Some (generateToken e now u)) = Inr u"
  using assms by (simp add: authenticateToken_def jwt_verify_def generateToken_def jwt_sign_def)

lemma login_success:
  assumes "login e d now name pw = (d', Inr (u, tok))"
  shows "u \<in> set (users d)" and "is_active u" and "tok = generateToken e now u"
    and "users d' = users d"
proof -
  let ?f = "find (\<lambda>u. username u = name \<or> email u = name) (users d)"
  from assms have v: "\<not> (name = [] \<or> pw = [])"
    by (cases "name = [] \<or> pw = []") (simp_all add: login_def)
  from assms v obtain x where fx: "?f = Some x"
    by (cases ?f) (simp_all add: login_def)
  from assms v fx have act: "is_active x"
    by (cases "is_active x") (simp_all add: login_def)
  from assms v fx act have pw: "bcrypt_compare e pw (password_hash x)"
    by (cases "bcrypt_compare e pw (password_hash x)") (simp_all add: login_def)
  from v fx act pw have R: "login e d now name pw =
      (logActivity (u_id x) ''user_login'' ''session'' None d, Inr (x, generateToken e now x))"
    by (simp add: login_def)
  from assms [unfolded R] have d': "d' = logActivity (u_id x) ''user_login'' ''session'' None d"
    and u: "u = x" and t: "tok = generateToken e now x" by blast+
  from fx u show "u \<in> set (users d)" by (auto simp: find_Some_iff)
  from act u show "is_active u" by simp
  from t u show "tok = generateToken e now u" by simp
  from d' show "users d' = users d" by (simp add: logActivity_def)
qed

lemma sql_less_irrefl: "\<not> sql_less a a"
  by (cases a) simp_all

lemma sql_less_trans: "sql_less a b \<Longrightarrow> sql_less b c \<Longrightarrow> sql_less a c"
  by (cases a; cases b; cases c) auto

lemma sql_less_total: "a = b \<or> sql_less a b \<or> sql_less b a"
  by (cases a; cases b) auto

lemma asc_nulls_last_irrefl: "\<not> asc_nulls_last a a"
  by (cases a) (simp_all add: sql_less_irrefl)

lemma asc_nulls_last_trans: "asc_nulls_last a b \<Longrightarrow> asc_nulls_last b c \<Longrightarrow> asc_nulls_last a c"
  by (cases a; cases b; cases c) (auto intro: sql_less_trans)

lemma asc_nulls_last_total: "a = b \<or> asc_nulls_last a b \<or> asc_nulls_last b a"
  using sql_less_total by (cases a; cases b) auto

lemma order_before_asym: "order_before a b \<Longrightarrow> \<not> order_before b a"
  using asc_nulls_last_irrefl asc_nulls_last_trans
  unfolding order_before_def by (metis less_asym less_irrefl)

lemma order_le_trans:
  assumes "\<not> order_before b a" and "\<not> order_before c b"
  shows "\<not> order_before c a"
proof -
  let ?r = "\<lambda>t. priority_rank (priority t)"
  from assms have r: "?r a \<le> ?r b" "?r b \<le> ?r c"
    by (auto simp: order_before_def)
  show ?thesis
  proof (cases "?r a = ?r c")
    case False
    with r show ?thesis by (auto simp: order_before_def)
  next
    case True
    with r have e: "?r a = ?r b" "?r b = ?r c" by auto
    with assms have d: "\<not> asc_nulls_last (due_date b) (due_date a)"
        "\<not> asc_nulls_last (due_date c) (due_date b)"
      and c: "due_date b = due_date a \<longrightarrow> created_at b \<le> created_at a"
        "due_date c = due_date b \<longrightarrow> created_at c \<le> created_at b"
      by (auto simp: order_before_def)
    have nd: "\<not> asc_nulls_last (due_date c) (due_date a)"
      using d asc_nulls_last_total [of "due_date a" "due_date b"]
        asc_nulls_last_total [of "due_date b" "due_date c"]
      by (metis asc_nulls_last_irrefl asc_nulls_last_trans)
    have "due_date c = due_date a \<longrightarrow> created_at c \<le> created_at a"
    proof
      assume eq: "due_date c = due_date a"
      with d asc_nulls_last_total [of "due_date a" "due_date b"]
      have "due_date b = due_date a" by auto
      with c eq show "created_at c \<le> created_at a" by simp
    qed
    with nd True show ?thesis by (auto simp: order_before_def)
  qed
qed

lemma set_insert_task: "set (insert_task x ys) = insert x (set ys)"
  by (induction ys) auto

lemma length_insert_task: "length (insert_task x ys) = Suc (length ys)"
  by (induction ys) auto

lemma sorted_insert_task:
  "sorted_wrt (\<lambda>a b. \<not> order_before b a) ys \<Longrightarrow>
   sorted_wrt (\<lambda>a b. \<not> order_before b a) (insert_task x ys)"
proof (induction ys)
  case Nil
  show ?case by simp
next
  case (Cons y ys)
  show ?case
  proof (cases "order_before y x")
    case True
    then have "\<not> order_before x y" by (rule order_before_asym)
    with True Cons show ?thesis by (auto simp: set_insert_task)
  next
    case False
    have "\<forall>z \<in> set ys. \<not> order_before z x"
    proof
      fix z assume "z \<in> set ys"
      with Cons.prems have "\<not> order_before z y" by simp
      with False show "\<not> order_before z x" by (rule order_le_trans)
    qed
    with False Cons.prems show ?thesis by simp
  qed
qed

lemma sorted_order_by: "sorted_wrt (\<lambda>a b. \<not> order_before b a) (order_by ts)"
  unfolding order_by_def by (induction ts) (simp_all add: sorted_insert_task)

lemma set_order_by: "set (order_by ts) = set ts"
  unfolding order_by_def by (induction ts) (simp_all add: set_insert_task)

lemma length_order_by: "length (order_by ts) = length ts"
  unfolding order_by_def by (induction ts) (simp_all add: length_insert_task)

text \<open>
  What the \<^verbatim>\<open>ORDER BY\<close> clause does guarantee: ranks of priority never decrease;
  among tasks of equal priority, rows without due date come last and the stored values of
  \<^verbatim>\<open>due_date\<close> never decrease in SQLite's order of values; among tasks of equal priority
  and equal stored value, creation times never increase.
\<close>

lemma listing_in_stored_order:
  assumes out: "getTasks e d now hdr q = Inr out" and ij: "i < j" "j < length out"
  shows "priority_rank (priority (out ! i)) \<le> priority_rank (priority (out ! j)) \<and>
         (priority (out ! i) = priority (out ! j) \<longrightarrow>
            (due_date (out ! i) = None \<longrightarrow> due_date (out ! j) = None) \<and>
            (\<forall>x y. due_date (out ! i) = Some x \<and> due_date (out ! j) = Some y \<longrightarrow>
                   x = y \<or> sql_less x y) \<and>
            (due_date (out ! i) = due_date (out ! j) \<longrightarrow>
               created_at (out ! j) \<le> created_at (out ! i)))"
proof -
  from out obtain ts where "out = order_by ts"
    by (auto simp: getTasks_def split: sum.splits)
  then have "sorted_wrt (\<lambda>a b. \<not> order_before b a) out"
    by (simp add: sorted_order_by)
  with ij have nb: "\<not> order_before (out ! j) (out ! i)"
    by (simp add: sorted_wrt_iff_nth_less)
  let ?a = "out ! i" and ?b = "out ! j"
  from nb have r: "priority_rank (priority ?a) \<le> priority_rank (priority ?b)"
    by (auto simp: order_before_def)
  have "priority ?a = priority ?b \<longrightarrow>
            (due_date ?a = None \<longrightarrow> due_date ?b = None) \<and>
            (\<forall>x y. due_date ?a = Some x \<and> due_date ?b = Some y \<longrightarrow> x = y \<or> sql_less x y) \<and>
            (due_date ?a = due_date ?b \<longrightarrow> created_at ?b \<le> created_at ?a)"
  proof (intro impI conjI allI)
    assume p: "priority ?a = priority ?b" and n: "due_date ?a = None"
    with nb have "\<not> asc_nulls_last (due_date ?b) None" by (simp add: order_before_def)
    then show "due_date ?b = None" by (cases "due_date ?b") simp_all
  next
    fix x y
    assume p: "priority ?a = priority ?b"
      and xy: "due_date ?a = Some x \<and> due_date ?b = Some y"
    with nb have "\<not> sql_less y x" by (simp add: order_before_def)
    with sql_less_total [of x y] show "x = y \<or> sql_less x y" by blast
  next
    assume "priority ?a = priority ?b" and "due_date ?a = due_date ?b"
    with nb show "created_at ?b \<le> created_at ?a" by (simp add: order_before_def)
  qed
  with r show ?thesis by blast
qed

lemma updateTask_success:
  assumes "updateTask e d now hdr taskId up = (d', Inr r)"
  shows "tasks d' = map (\<lambda>x. if t_id x = taskId then applyUpdates now up x else x) (tasks d)"
  using assms
  by (auto simp: updateTask_def Let_def logActivity_def
           split: sum.splits option.splits if_splits)

lemma update_status_sets_completed_at:
  assumes "updateTask e d now hdr taskId up = (d', Inr r)" and "up_status up = Some s"
    and "t \<in> set (tasks d')" and "t_id t = taskId"
  shows "status t = s \<and> completed_at t = (if s = Done then Some now else None)"
proof -
  from assms(3) updateTask_success [OF assms(1)] obtain x where
    "x \<in> set (tasks d)" and "t = (if t_id x = taskId then applyUpdates now up x else x)"
    by auto
  moreover from this assms(4) have "t_id x = taskId"
    by (auto simp: applyUpdates_def split: if_splits)
  ultimately have "t = applyUpdates now up x" by simp
  with assms(2) show ?thesis by (simp add: applyUpdates_def)
qed

lemma update_keeps_completion_invariant:
  assumes "updateTask e d now hdr taskId up = (d', Inr r)"
    and "\<forall>t \<in> set (tasks d). (completed_at t \<noteq> None) = (status t = Done)"
    and "t \<in> set (tasks d')"
  shows "(completed_at t \<noteq> None) = (status t = Done)"
proof -
  from assms(3) updateTask_success [OF assms(1)] obtain x where
    x: "x \<in> set (tasks d)" and t: "t = (if t_id x = taskId then applyUpdates now up x else x)"
    by auto
  from assms(2) x have "(completed_at x \<noteq> None) = (status x = Done)" by simp
  with t show ?thesis
    by (cases "up_status up") (auto simp: applyUpdates_def)
qed

lemma create_rejects_non_member:
  assumes "authenticateToken e d now hdr = Inr u"
    and "1 \<le> length (b_title b)" "length (b_title b) \<le> 200"
    and "case b_description b of None \<Rightarrow> True | Some ds \<Rightarrow> length ds \<le> 2000"
    and "hasAccess d (b_projectId b) (u_id u)"
    and "b_assignedTo b = Some a" and "a \<noteq> 0" and "\<not> hasAccess d (b_projectId b) a"
  shows "createTask e d now hdr b =
           (d, Inl (Failure 400 ''Assigned user is not a project member''))"
  using assms by (simp add: createTask_def)

lemma update_accepts_non_member:
  assumes "authenticateToken e d now hdr = Inr u"
    and "getTaskById d taskId = Some t"
    and "hasAccess d (project_id t) (u_id u)"
    and "list_ex (\<lambda>x. u_id x = a) (users d)"
  shows "\<exists>d' r. updateTask e d now hdr taskId
                 \<lparr>up_title = None, up_description = None, up_assignedTo = Some a,
                  up_priority = None, up_status = None, up_dueDate = None\<rparr> = (d', Inr r) \<and>
               tasks d' = map (\<lambda>x. if t_id x = taskId then x\<lparr>assigned_to := Some a, updated_at := now\<rparr>
                                    else x) (tasks d)"
  using assms
  by (simp add: updateTask_def noFields_def Let_def logActivity_def applyUpdates_def)

text \<open>The routes keep the key \<open>u_id\<close> unique.\<close>

lemma register_keeps_ids_distinct:
  assumes "distinct (map u_id (users d))" and "register e d now salt b = (d', r)"
  shows "distinct (map u_id (users d'))"
proof -
  let ?k = "next_id (seq_users d) (map u_id (users d))"
  have "users d' = users d \<or> (\<exists>u. users d' = users d @ [u] \<and> u_id u = ?k)"
    using assms(2)
    by (auto simp: register_def Let_def logActivity_def split: if_splits option.splits)
  with assms(1) next_id_fresh [of "seq_users d" "map u_id (users d)"] show ?thesis
    by auto
qed

lemma setRole_keeps_ids: "map u_id (users (setRole uid r d)) = map u_id (users d)"
  by (simp add: setRole_def comp_def if_distrib cong: if_cong)

lemma setActive_keeps_ids: "map u_id (users (setActive uid b d)) = map u_id (users d)"
  by (simp add: setActive_def comp_def if_distrib cong: if_cong)

lemma users_logActivity: "users (logActivity uid act ety eid d) = users d"
  by (simp add: logActivity_def)

lemma updateUserRole_keeps_ids:
  "updateUserRole e d now hdr uid r = (d', x) \<Longrightarrow> map u_id (users d') = map u_id (users d)"
  by (auto simp: updateUserRole_def setRole_keeps_ids users_logActivity
           split: sum.splits option.splits if_splits)

lemma toggleActive_keeps_ids:
  "toggleActive e d now hdr uid = (d', x) \<Longrightarrow> map u_id (users d') = map u_id (users d)"
  by (auto simp: toggleActive_def Let_def setActive_keeps_ids users_logActivity
           split: sum.splits option.splits if_splits)


subsection \<open>C1: Reading a hidden task\<close>

text \<open>
  C1 (amended). For an authenticated user and an existing task whose project the user
  neither owns nor is a member of, reading the task fails with status 403, "Access denied";
  reading an id that no task has fails with status 404, "Task not found". The read never
  succeeds, but the two answers differ.
\<close>

theorem hidden_task_read_forbidden:
  assumes auth: "authenticateToken e d now hdr = Inr u"
  shows "(\<forall>t. getTaskById d taskId = Some t \<and>
              list_ex (\<lambda>p. p_id p = project_id t) (projects d) \<and>
              \<not> hasAccess d (project_id t) (u_id u) \<longrightarrow>
            getTask e d now hdr taskId = Inl (Failure 403 ''Access denied'')) \<and>
         (getTaskById d taskId = None \<longrightarrow>
            getTask e d now hdr taskId = Inl (Failure 404 ''Task not found''))"
proof (intro conjI allI impI)
  fix t
  assume h: "getTaskById d taskId = Some t \<and>
             list_ex (\<lambda>p. p_id p = project_id t) (projects d) \<and>
             \<not> hasAccess d (project_id t) (u_id u)"
  then have "find (\<lambda>t. t_id t = taskId \<and> list_ex (\<lambda>p. p_id p = project_id t) (projects d))
               (tasks d) = Some t"
    unfolding getTaskById_def by (intro find_conj_Some) auto
  with auth h show "getTask e d now hdr taskId = Inl (Failure 403 ''Access denied'')"
    by (simp add: getTask_def)
next
  assume "getTaskById d taskId = None"
  then have "find (\<lambda>t. t_id t = taskId \<and> list_ex (\<lambda>p. p_id p = project_id t) (projects d))
               (tasks d) = None"
    unfolding getTaskById_def by (rule find_conj_None)
  with auth show "getTask e d now hdr taskId = Inl (Failure 404 ''Task not found'')"
    by (simp add: getTask_def)
qed

theorem hidden_task_read_forbidden_witness:
  "authenticateToken env0 db0 2000 (Some (tokenOf bob)) = Inr bob \<and>
   getTaskById db0 1 = Some task1 \<and>
   list_ex (\<lambda>p. p_id p = project_id task1) (projects db0) \<and>
   \<not> hasAccess db0 (project_id task1) (u_id bob) \<and>
   getTask env0 db0 2000 (Some (tokenOf bob)) 1 = Inl (Failure 403 ''Access denied'') \<and>
   getTaskById db0 7 = None \<and>
   getTask env0 db0 2000 (Some (tokenOf bob)) 7 = Inl (Failure 404 ''Task not found'')"
proof -
  have a: "authenticateToken env0 db0 2000 (Some (tokenOf bob)) = Inr bob"
    by (simp add: example_defs auth_defs)
  have t: "getTaskById db0 1 = Some task1" and n: "getTaskById db0 7 = None"
    by (simp_all add: getTaskById_def db0_def task1_def)
  have p: "list_ex (\<lambda>p. p_id p = project_id task1) (projects db0)"
    by (simp add: db0_def task1_def)
  have h: "\<not> hasAccess db0 (project_id task1) (u_id bob)"
    by (simp add: hasAccess_def db0_def task1_def bob_def)
  from hidden_task_read_forbidden [OF a, of 1] t p h
  have "getTask env0 db0 2000 (Some (tokenOf bob)) 1 = Inl (Failure 403 ''Access denied'')"
    by blast
  moreover from hidden_task_read_forbidden [OF a, of 7] n
  have "getTask env0 db0 2000 (Some (tokenOf bob)) 7 = Inl (Failure 404 ''Task not found'')"
    by blast
  ultimately show ?thesis using a t n p h by simp
qed

text \<open>
  C1 as stated fails for bob, who has no access to the project of task 1: the answer is 403,
  and it is not the answer given for the unused id 7.
\<close>

theorem hidden_task_not_found_counterexample:
  "authenticateToken env0 db0 2000 (Some (tokenOf bob)) = Inr bob \<and>
   getTaskById db0 1 = Some task1 \<and>
   \<not> hasAccess db0 (project_id task1) (u_id bob) \<and>
   getTask env0 db0 2000 (Some (tokenOf bob)) 1 = Inl (Failure 403 ''Access denied'') \<and>
   getTask env0 db0 2000 (Some (tokenOf bob)) 1 \<noteq> getTask env0 db0 2000 (Some (tokenOf bob)) 7"
proof -
  have a: "authenticateToken env0 db0 2000 (Some (tokenOf bob)) = Inr bob"
    by (simp add: example_defs auth_defs)
  have t: "getTaskById db0 1 = Some task1"
    by (simp add: getTaskById_def db0_def task1_def)
  have h: "\<not> hasAccess db0 (project_id task1) (u_id bob)"
    by (simp add: hasAccess_def db0_def task1_def bob_def)
  have g1: "getTask env0 db0 2000 (Some (tokenOf bob)) 1 = Inl (Failure 403 ''Access denied'')"
    by (simp add: getTask_def a) (simp add: db0_def task1_def hasAccess_def bob_def)
  have g7: "getTask env0 db0 2000 (Some (tokenOf bob)) 7 = Inl (Failure 404 ''Task not found'')"
    by (simp add: getTask_def a) (simp add: db0_def task1_def)
  from a t h g1 g7 show ?thesis by simp
qed

subsection \<open>C2: Assignment to a non-member\<close>

text \<open>
  C2. The code departs from the claim on the update path. bob is neither the owner nor a
  member of project 1: creating a task assigned to him is refused with status 400 and the
  store is unchanged (in general, \<open>create_rejects_non_member\<close>), but updating task 1 with
  him as assignee succeeds and stores him as the assignee (in general,
  \<open>update_accepts_non_member\<close>).
\<close>

theorem update_assigns_non_member:
  "\<not> hasAccess db0 (project_id task1) 2 \<and>
   createTask env0 db0 2000 (Some (tokenOf alice)) body_for_bob =
     (db0, Inl (Failure 400 ''Assigned user is not a project member'')) \<and>
   snd (updateTask env0 db0 2000 (Some (tokenOf alice)) 1 reassign_bob) =
     Inr (Some (task1\<lparr>assigned_to := Some 2, updated_at := 2000\<rparr>)) \<and>
   getTaskById (fst (updateTask env0 db0 2000 (Some (tokenOf alice)) 1 reassign_bob)) 1 =
     Some (task1\<lparr>assigned_to := Some 2, updated_at := 2000\<rparr>)"
proof -
  have a: "authenticateToken env0 db0 2000 (Some (tokenOf alice)) = Inr alice"
    by (simp add: example_defs auth_defs)
  have h: "\<not> hasAccess db0 (project_id task1) 2"
    by (simp add: hasAccess_def db0_def task1_def)
  have c: "createTask env0 db0 2000 (Some (tokenOf alice)) body_for_bob =
     (db0, Inl (Failure 400 ''Assigned user is not a project member''))"
    by (simp add: createTask_def a body_for_bob_def)
       (simp add: hasAccess_def db0_def alice_def)
  have u: "updateTask env0 db0 2000 (Some (tokenOf alice)) 1 reassign_bob =
     (logActivity 1 ''task_updated'' ''task'' (Some 1)
        (db0\<lparr>tasks := [task1\<lparr>assigned_to := Some 2, updated_at := 2000\<rparr>]\<rparr>),
      Inr (Some (task1\<lparr>assigned_to := Some 2, updated_at := 2000\<rparr>)))"
    by (simp add: updateTask_def a reassign_bob_def noFields_def)
       (simp add: getTaskById_def hasAccess_def db0_def alice_def bob_def carol_def dave_def
          task1_def applyUpdates_def)
  from h c u show ?thesis
    by (simp add: getTaskById_def logActivity_def task1_def)
qed

subsection \<open>C3: The last active administrator\<close>

text \<open>
  C3 (amended). The key \<open>u_id\<close> being unique, the store holds an active administrator
  after every successful change of a global role and after every successful activation
  toggle. For an authenticated administrator, a change of role that would leave no active
  administrator is refused with "Cannot remove the last admin"; a toggle that would leave
  none is refused as well, with "Cannot deactivate your own account": the last active
  administrator is then the requester.
\<close>

theorem active_admin_retained:
  assumes pk: "distinct (map u_id (users d))"
  shows "(\<forall>d' x. updateUserRole e d now hdr uid r = (d', Inr x) \<longrightarrow> 0 < adminCount d') \<and>
         (\<forall>d' b. toggleActive e d now hdr uid = (d', Inr b) \<longrightarrow> 0 < adminCount d') \<and>
         (\<forall>a. authenticateToken e d now hdr = Inr a \<and> role a = Admin \<longrightarrow>
            (adminCount (setRole uid r d) = 0 \<longrightarrow>
               updateUserRole e d now hdr uid r =
                 (d, Inl (Failure 400 ''Cannot remove the last admin''))) \<and>
            (adminCount (setActive uid False d) = 0 \<longrightarrow>
               toggleActive e d now hdr uid =
                 (d, Inl (Failure 400 ''Cannot deactivate your own account''))))"
proof (intro conjI allI impI)
  fix d' x
  assume "updateUserRole e d now hdr uid r = (d', Inr x)"
  with pk show "0 < adminCount d'" by (rule role_success_keeps_admin)
next
  fix d' b
  assume "toggleActive e d now hdr uid = (d', Inr b)"
  then show "0 < adminCount d'" by (rule toggle_success_keeps_admin)
next
  fix a
  assume "authenticateToken e d now hdr = Inr a \<and> role a = Admin"
    and "adminCount (setRole uid r d) = 0"
  then show "updateUserRole e d now hdr uid r =
               (d, Inl (Failure 400 ''Cannot remove the last admin''))"
    using demote_last_refused [OF pk] by blast
next
  fix a
  assume "authenticateToken e d now hdr = Inr a \<and> role a = Admin"
    and "adminCount (setActive uid False d) = 0"
  then show "toggleActive e d now hdr uid =
               (d, Inl (Failure 400 ''Cannot deactivate your own account''))"
    using deactivate_last_refused by blast
qed

theorem active_admin_retained_witness:
  "distinct (map u_id (users db0)) \<and>
   snd (updateUserRole env0 db0 2000 (Some (tokenOf alice)) 2 Manager) =
     Inr (bob\<lparr>role := Manager\<rparr>) \<and>
   0 < adminCount (fst (updateUserRole env0 db0 2000 (Some (tokenOf alice)) 2 Manager)) \<and>
   snd (toggleActive env0 db0 2000 (Some (tokenOf alice)) 2) = Inr False \<and>
   0 < adminCount (fst (toggleActive env0 db0 2000 (Some (tokenOf alice)) 2)) \<and>
   authenticateToken env0 db0 2000 (Some (tokenOf alice)) = Inr alice \<and> role alice = Admin \<and>
   adminCount (setRole 1 Member db0) = 0 \<and>
   updateUserRole env0 db0 2000 (Some (tokenOf alice)) 1 Member =
     (db0, Inl (Failure 400 ''Cannot remove the last admin'')) \<and>
   adminCount (setActive 1 False db0) = 0 \<and>
   toggleActive env0 db0 2000 (Some (tokenOf alice)) 1 =
     (db0, Inl (Failure 400 ''Cannot deactivate your own account''))"
proof -
  have pk: "distinct (map u_id (users db0))"
    by (simp add: example_defs)
  note T = active_admin_retained [OF pk, of env0 2000 "Some (tokenOf alice)"]
  have a: "authenticateToken env0 db0 2000 (Some (tokenOf alice)) = Inr alice"
    by (simp add: example_defs auth_defs)
  have r: "role alice = Admin"
    by (simp add: alice_def)
  have s1: "snd (updateUserRole env0 db0 2000 (Some (tokenOf alice)) 2 Manager) =
              Inr (bob\<lparr>role := Manager\<rparr>)"
    by (simp add: updateUserRole_def a requireAdmin_def requireRole_def r)
       (simp add: example_defs getUserById_def)
  have s2: "snd (toggleActive env0 db0 2000 (Some (tokenOf alice)) 2) = Inr False"
    by (simp add: toggleActive_def a requireAdmin_def requireRole_def r)
       (simp add: example_defs getUserById_def)
  have z1: "adminCount (setRole 1 Member db0) = 0"
    by (simp add: example_defs adminCount_def setRole_def)
  have z2: "adminCount (setActive 1 False db0) = 0"
    by (simp add: example_defs adminCount_def setActive_def)
  from T [of 2 Manager] s1
  have p1: "0 < adminCount (fst (updateUserRole env0 db0 2000 (Some (tokenOf alice)) 2 Manager))"
    by (metis prod.collapse)
  from T [of 2 Manager] s2
  have p2: "0 < adminCount (fst (toggleActive env0 db0 2000 (Some (tokenOf alice)) 2))"
    by (metis prod.collapse)
  from T [of 1 Member] a r z1 z2
  have "updateUserRole env0 db0 2000 (Some (tokenOf alice)) 1 Member =
     (db0, Inl (Failure 400 ''Cannot remove the last admin''))"
    and "toggleActive env0 db0 2000 (Some (tokenOf alice)) 1 =
     (db0, Inl (Failure 400 ''Cannot deactivate your own account''))"
    by blast+
  with pk s1 s2 p1 p2 a r z1 z2 show ?thesis by simp
qed

text \<open>
  C3 as stated fails where alice, the only active administrator, toggles her own account:
  the deactivation would leave no active administrator, and it is refused, but not with the
  last-admin error.
\<close>

theorem last_admin_error_counterexample:
  "adminCount db0 = 1 \<and> adminCount (setActive 1 False db0) = 0 \<and>
   toggleActive env0 db0 2000 (Some (tokenOf alice)) 1 =
     (db0, Inl (Failure 400 ''Cannot deactivate your own account'')) \<and>
   toggleActive env0 db0 2000 (Some (tokenOf alice)) 1 \<noteq>
     (db0, Inl (Failure 400 ''Cannot deactivate the last admin''))"
proof -
  have a: "authenticateToken env0 db0 2000 (Some (tokenOf alice)) = Inr alice"
    by (simp add: example_defs auth_defs)
  have "adminCount db0 = 1" "adminCount (setActive 1 False db0) = 0"
    by (simp_all add: example_defs adminCount_def setActive_def)
  moreover have "toggleActive env0 db0 2000 (Some (tokenOf alice)) 1 =
     (db0, Inl (Failure 400 ''Cannot deactivate your own account''))"
    by (simp add: toggleActive_def a requireAdmin_def requireRole_def) (simp add: alice_def)
  ultimately show ?thesis by simp
qed

subsection \<open>C4: Issued tokens verify\<close>

text \<open>
  C4. The routes hand out tokens in three places: login, registration, and the refresh
  middleware for an authenticated request. In the store left by any of them (user ids being
  unique), the token verifies at every time before its expiry, and the user attached to the
  request has the id, the username and the role of the user the token was issued for.
\<close>

theorem issued_token_verifies:
  assumes pk: "distinct (map u_id (users d))"
    and issued: "login e d now name pw = (d', Inr (u, tok)) \<or>
                 register e d now salt b = (d', Inr (u, tok, first)) \<or>
                 (authenticateToken e d now hdr = Inr u \<and>
                  refreshTokenMiddleware e now (Some u) hdr = Some tok \<and> d' = d)"
    and before: "t < tok_exp tok"
  shows "\<exists>p. authenticateToken e d' t (Some tok) = Inr p \<and>
             u_id p = u_id u \<and> username p = username u \<and> role p = role u"
proof -
  have "getUserById d' (u_id u) = Some u \<and> is_active u \<and> tok = generateToken e now u"
    using issued
  proof (elim disjE conjE)
    assume l: "login e d now name pw = (d', Inr (u, tok))"
    from login_success(1,4) [OF l] pk have "getUserById d' (u_id u) = Some u"
      by (simp add: getUserById_def find_unique)
    with login_success(2,3) [OF l] show ?thesis by simp
  next
    assume r: "register e d now salt b = (d', Inr (u, tok, first))"
    from register_success(1) [OF r] have k: "u_id u = next_id (seq_users d) (map u_id (users d))"
      and act: "is_active u" by simp_all
    have "find (\<lambda>x. u_id x = u_id u) (users d) = None"
      unfolding k using next_id_fresh [of "seq_users d" "map u_id (users d)"]
      by (intro find_id_fresh)
    then have "find (\<lambda>x. u_id x = u_id u) (users d @ [u]) = Some u"
      by (rule find_append_new) simp
    with register_success(2) [OF r] have "getUserById d' (u_id u) = Some u"
      by (simp add: getUserById_def)
    with act register_success(3) [OF r] show ?thesis by simp
  next
    assume a: "authenticateToken e d now hdr = Inr u"
      and f: "refreshTokenMiddleware e now (Some u) hdr = Some tok" and d': "d' = d"
    from auth_Inr [OF a] obtain tok0 :: token where act: "is_active u"
      and g: "getUserById d (tok_userId tok0) = Some u" and h: "hdr = Some tok0" by auto
    from getUserById_Some [OF g] g have "getUserById d (u_id u) = Some u" by simp
    moreover from f h have "tok = generateToken e now u"
      by (simp add: refreshTokenMiddleware_def split: if_splits)
    ultimately show ?thesis using act d' by simp
  qed
  then have g: "getUserById d' (u_id u) = Some u" and act: "is_active u"
    and tok: "tok = generateToken e now u" by simp_all
  from before tok have "t < now + JWT_EXPIRY e" by (simp add: generateToken_def jwt_sign_def)
  with g act have "authenticateToken e d' t (Some (generateToken e now u)) = Inr u"
    by (rule verify_generated)
  with tok show ?thesis by simp
qed

text \<open>
  alice logs in, erin registers, and alice's token is refreshed shortly before it expires.
\<close>

theorem issued_token_verifies_witness:
  "distinct (map u_id (users db0)) \<and>
   login env0 db0 1000 ''alice'' ''wonderland'' =
     (logActivity 1 ''user_login'' ''session'' None db0, Inr (alice, tokenOf alice)) \<and>
   2000 < tok_exp (tokenOf alice) \<and>
   (\<exists>p. authenticateToken env0 (logActivity 1 ''user_login'' ''session'' None db0) 2000
           (Some (tokenOf alice)) = Inr p \<and>
        u_id p = u_id alice \<and> username p = username alice \<and> role p = role alice) \<and>
   register env0 db0 1000 ''s5'' reg_erin =
     (logActivity 5 ''user_registered'' ''user'' (Some 5)
        (db0\<lparr>users := [alice, bob, carol, dave, erin], seq_users := 5\<rparr>),
      Inr (erin, tokenOf erin, False)) \<and>
   (\<exists>p. authenticateToken env0
           (logActivity 5 ''user_registered'' ''user'' (Some 5)
              (db0\<lparr>users := [alice, bob, carol, dave, erin], seq_users := 5\<rparr>)) 2000
           (Some (tokenOf erin)) = Inr p \<and>
        u_id p = u_id erin \<and> username p = username erin \<and> role p = role erin) \<and>
   authenticateToken env0 db0 600000 (Some (tokenOf alice)) = Inr alice \<and>
   refreshTokenMiddleware env0 600000 (Some alice) (Some (tokenOf alice)) =
     Some (generateToken env0 600000 alice) \<and>
   (\<exists>p. authenticateToken env0 db0 700000 (Some (generateToken env0 600000 alice)) = Inr p \<and>
        u_id p = u_id alice \<and> username p = username alice \<and> role p = role alice)"
proof -
  have pk: "distinct (map u_id (users db0))"
    by (simp add: example_defs)
  have l: "login env0 db0 1000 ''alice'' ''wonderland'' =
     (logActivity 1 ''user_login'' ''session'' None db0, Inr (alice, tokenOf alice))"
    by (simp add: login_def example_defs)
  have x: "2000 < tok_exp (tokenOf alice)" "2000 < tok_exp (tokenOf erin)"
    "700000 < tok_exp (generateToken env0 600000 alice)"
    by (simp_all add: example_defs)
  have v: "registerValid env0 reg_erin"
    by (simp add: registerValid_def reg_erin_def env0_def isWordChar_def)
  have r: "register env0 db0 1000 ''s5'' reg_erin =
     (logActivity 5 ''user_registered'' ''user'' (Some 5)
        (db0\<lparr>users := [alice, bob, carol, dave, erin], seq_users := 5\<rparr>),
      Inr (erin, tokenOf erin, False))"
    by (simp add: register_def v)
       (simp add: Let_def next_id_def max_id_def getUserById_def reg_erin_def erin_def
          logActivity_def example_defs)
  have a: "authenticateToken env0 db0 600000 (Some (tokenOf alice)) = Inr alice"
    by (simp add: example_defs auth_defs)
  have f: "refreshTokenMiddleware env0 600000 (Some alice) (Some (tokenOf alice)) =
     Some (generateToken env0 600000 alice)"
    by (simp add: refreshTokenMiddleware_def tokenOf_def generateToken_def jwt_sign_def env0_def)
  from a f have i3: "authenticateToken env0 db0 600000 (Some (tokenOf alice)) = Inr alice \<and>
      refreshTokenMiddleware env0 600000 (Some alice) (Some (tokenOf alice)) =
        Some (generateToken env0 600000 alice) \<and> db0 = db0"
    by simp
  note T = issued_token_verifies [OF pk]
  from T [OF disjI1 x(1), OF l] T [OF disjI2 x(2), OF disjI1, OF r]
    T [OF disjI2 x(3), OF disjI2, OF i3] pk l x r a f
  show ?thesis by simp
qed

subsection \<open>C5: The first registration\<close>

text \<open>
  C5. A successful registration appends one user to the store; its role is admin when the
  store held no user before, and member when it held at least one.
\<close>

theorem first_registration_admin:
  assumes "register e d now salt b = (d', Inr (u, tok, first))"
  shows "(users d = [] \<longrightarrow> role u = Admin) \<and> (users d \<noteq> [] \<longrightarrow> role u = Member) \<and>
         users d' = users d @ [u]"
proof -
  from register_success(1) [OF assms]
  have "role u = (if users d = [] then Admin else Member)" by simp
  with register_success(2) [OF assms] show ?thesis by simp
qed

text \<open>
  The first registration, of alice into the empty store, and a later one, of erin.
\<close>

theorem first_registration_admin_witness:
  "register env0 db_empty 1000 ''s1'' reg_alice =
     (logActivity 1 ''user_registered'' ''user'' (Some 1) (db_empty\<lparr>users := [alice], seq_users := 1\<rparr>),
      Inr (alice, tokenOf alice, True)) \<and>
   users db_empty = [] \<and> role alice = Admin \<and>
   register env0 db0 1000 ''s5'' reg_erin =
     (logActivity 5 ''user_registered'' ''user'' (Some 5)
        (db0\<lparr>users := [alice, bob, carol, dave, erin], seq_users := 5\<rparr>),
      Inr (erin, tokenOf erin, False)) \<and>
   users db0 \<noteq> [] \<and> role erin = Member"
proof -
  have v: "registerValid env0 reg_alice" "registerValid env0 reg_erin"
    by (simp_all add: registerValid_def reg_alice_def reg_erin_def env0_def isWordChar_def)
  have r1: "register env0 db_empty 1000 ''s1'' reg_alice =
     (logActivity 1 ''user_registered'' ''user'' (Some 1) (db_empty\<lparr>users := [alice], seq_users := 1\<rparr>),
      Inr (alice, tokenOf alice, True))"
    by (simp add: register_def v)
       (simp add: Let_def next_id_def max_id_def getUserById_def db_empty_def reg_alice_def
          logActivity_def example_defs)
  have r2: "register env0 db0 1000 ''s5'' reg_erin =
     (logActivity 5 ''user_registered'' ''user'' (Some 5)
        (db0\<lparr>users := [alice, bob, carol, dave, erin], seq_users := 5\<rparr>),
      Inr (erin, tokenOf erin, False))"
    by (simp add: register_def v)
       (simp add: Let_def next_id_def max_id_def getUserById_def reg_erin_def erin_def
          logActivity_def example_defs)
  have e: "users db_empty = []" "users db0 \<noteq> []"
    by (simp_all add: db_empty_def db0_def)
  from first_registration_admin [OF r1] first_registration_admin [OF r2] e
  have "role alice = Admin" "role erin = Member" by simp_all
  with r1 r2 e show ?thesis by simp
qed

subsection \<open>C6: Completion time\<close>

text \<open>
  C6. The code departs from the claim at creation: a task created with status done is
  stored with no completion time. An update that carries a status does set or clear the
  completion time with it (\<open>update_status_sets_completed_at\<close>), and updates keep
  "completed exactly when done" once it holds (\<open>update_keeps_completion_invariant\<close>).
\<close>

theorem created_done_without_completed_at:
  "createTask env0 db0 2000 (Some (tokenOf alice)) body_done =
     (logActivity 1 ''task_created'' ''task'' (Some 2)
        (db0\<lparr>tasks := [task1, task_done], seq_tasks := 2\<rparr>),
      Inr (Some task_done)) \<and>
   status task_done = Done \<and> completed_at task_done = None"
proof -
  have a: "authenticateToken env0 db0 2000 (Some (tokenOf alice)) = Inr alice"
    by (simp add: example_defs auth_defs)
  have "createTask env0 db0 2000 (Some (tokenOf alice)) body_done =
     (logActivity 1 ''task_created'' ''task'' (Some 2)
        (db0\<lparr>tasks := [task1, task_done], seq_tasks := 2\<rparr>),
      Inr (Some task_done))"
    by (simp add: createTask_def a body_done_def)
       (simp add: hasAccess_def task_fk_def next_id_def max_id_def getTaskById_def Let_def
          db0_def alice_def bob_def carol_def dave_def task1_def task_done_def numeral_2_eq_2)
  then show ?thesis by (simp add: task_done_def)
qed

subsection \<open>C7: Order of the listing\<close>

text \<open>
  C7. The code departs from the claim where due dates are not all written alike. alice
  creates three tasks of high priority: A due 2024-01-06 01:00 UTC, B due 2024-01-05 23:00
  at UTC-5, which is three hours after A, and C due in the year 2025. The listing returns
  C, B, A: the reverse of the order of the due dates. The clause orders the values as they
  are stored, the integer 2025 before every text and the texts byte by byte
  (\<open>listing_in_stored_order\<close>).
\<close>

theorem listing_not_by_due_date:
  "createTask env0 db0 2000 (Some (tokenOf alice))
       (body_due ''A'' (SqlText ''2024-01-06T01:00:00+00:00'')) =
     (db_due1, Inr (Some task_a)) \<and>
   createTask env0 db_due1 2001 (Some (tokenOf alice))
       (body_due ''B'' (SqlText ''2024-01-05T23:00:00-05:00'')) =
     (db_due2, Inr (Some task_b)) \<and>
   createTask env0 db_due2 2002 (Some (tokenOf alice)) (body_due ''C'' (SqlInt 2025)) =
     (db_due3, Inr (Some task_c)) \<and>
   getTasks env0 db_due3 3000 (Some (tokenOf alice)) q_high = Inr [task_c, task_b, task_a]"
proof -
  note due_defs =
    body_due_def task_due_def task_a_def task_b_def task_c_def db_due1_def db_due2_def
    db_due3_def q_high_def logActivity_def db0_def alice_def bob_def carol_def dave_def
    task1_def
  have a0: "authenticateToken env0 db0 2000 (Some (tokenOf alice)) = Inr alice"
    and a1: "authenticateToken env0 db_due1 2001 (Some (tokenOf alice)) = Inr alice"
    and a2: "authenticateToken env0 db_due2 2002 (Some (tokenOf alice)) = Inr alice"
    and a3: "authenticateToken env0 db_due3 3000 (Some (tokenOf alice)) = Inr alice"
    by (simp_all add: db_due1_def db_due2_def db_due3_def logActivity_def example_defs auth_defs)
  have c1: "createTask env0 db0 2000 (Some (tokenOf alice))
       (body_due ''A'' (SqlText ''2024-01-06T01:00:00+00:00'')) =
     (db_due1, Inr (Some task_a))"
    by (simp add: createTask_def a0)
       (simp add: hasAccess_def task_fk_def next_id_def max_id_def getTaskById_def Let_def
          due_defs numeral_2_eq_2)
  have c2: "createTask env0 db_due1 2001 (Some (tokenOf alice))
       (body_due ''B'' (SqlText ''2024-01-05T23:00:00-05:00'')) =
     (db_due2, Inr (Some task_b))"
    by (simp add: createTask_def a1)
       (simp add: hasAccess_def task_fk_def next_id_def max_id_def getTaskById_def Let_def
          due_defs numeral_2_eq_2 numeral_3_eq_3)
  have c3: "createTask env0 db_due2 2002 (Some (tokenOf alice)) (body_due ''C'' (SqlInt 2025)) =
     (db_due3, Inr (Some task_c))"
    by (simp add: createTask_def a2)
       (simp add: hasAccess_def task_fk_def next_id_def max_id_def getTaskById_def Let_def
          due_defs numeral_2_eq_2 numeral_3_eq_3)
  have g: "getTasks env0 db_due3 3000 (Some (tokenOf alice)) q_high =
             Inr [task_c, task_b, task_a]"
    by (simp add: getTasks_def a3)
       (simp add: taskSelected_def hasAccess_def order_by_def order_before_def due_defs)
  from c1 c2 c3 g show ?thesis by simp
qed

subsection \<open>C8: Leaving a project\<close>

text \<open>
  C8 (amended). An authenticated user who holds a membership row of an existing project
  and is not the owner of the project can always remove themselves: the request succeeds
  and no membership row of theirs is left. For the owner the request is refused with
  status 400, "Cannot remove project owner", and the store is unchanged.
\<close>

theorem member_removes_self:
  assumes auth: "authenticateToken e d now hdr = Inr u"
    and proj: "getProjectById d pid = Some p"
    and mem: "getMemberRole d pid (u_id u) = Some m"
  shows "(u_id u \<noteq> owner_id p \<longrightarrow>
            (\<exists>d'. removeMember e d now hdr pid (u_id u) = (d', Inr ()) \<and>
                  getMemberRole d' pid (u_id u) = None)) \<and>
         (u_id u = owner_id p \<longrightarrow>
            removeMember e d now hdr pid (u_id u) =
              (d, Inl (Failure 400 ''Cannot remove project owner'')))"
proof (intro conjI impI)
  assume ne: "u_id u \<noteq> owner_id p"
  let ?P = "\<lambda>m. m_project_id m = pid \<and> m_user_id m = u_id u"
  let ?d1 = "d\<lparr>members := filter (\<lambda>m. \<not> ?P m) (members d)\<rparr>"
  let ?d' = "logActivity (u_id u) ''member_removed'' ''project'' (Some pid) ?d1"
  from mem have pos: "0 < length (filter ?P (members d))"
    unfolding getMemberRole_def by (rule find_Some_filter_pos)
  with auth proj ne have "removeMember e d now hdr pid (u_id u) = (?d', Inr ())"
    by (simp add: removeMember_def Let_def)
  moreover have "getMemberRole ?d' pid (u_id u) = None"
    by (simp add: getMemberRole_def logActivity_def find_None_iff)
  ultimately show "\<exists>d'. removeMember e d now hdr pid (u_id u) = (d', Inr ()) \<and>
                  getMemberRole d' pid (u_id u) = None"
    by blast
next
  assume "u_id u = owner_id p"
  with auth proj show "removeMember e d now hdr pid (u_id u) =
              (d, Inl (Failure 400 ''Cannot remove project owner''))"
    by (simp add: removeMember_def)
qed

text \<open>
  carol, a member of project 1, leaves it; alice, its owner, cannot.
\<close>

theorem member_removes_self_witness:
  "authenticateToken env0 db0 2000 (Some (tokenOf carol)) = Inr carol \<and>
   getProjectById db0 1 = Some \<lparr>p_id = 1, p_name = ''Launch'', owner_id = 1\<rparr> \<and>
   getMemberRole db0 1 (u_id carol) = Some \<lparr>m_project_id = 1, m_user_id = 3, m_role = PMember\<rparr> \<and>
   (\<exists>d'. removeMember env0 db0 2000 (Some (tokenOf carol)) 1 (u_id carol) = (d', Inr ()) \<and>
         getMemberRole d' 1 (u_id carol) = None) \<and>
   authenticateToken env0 db0 2000 (Some (tokenOf alice)) = Inr alice \<and>
   getMemberRole db0 1 (u_id alice) = Some \<lparr>m_project_id = 1, m_user_id = 1, m_role = POwner\<rparr> \<and>
   removeMember env0 db0 2000 (Some (tokenOf alice)) 1 (u_id alice) =
     (db0, Inl (Failure 400 ''Cannot remove project owner''))"
proof -
  have ac: "authenticateToken env0 db0 2000 (Some (tokenOf carol)) = Inr carol"
    and aa: "authenticateToken env0 db0 2000 (Some (tokenOf alice)) = Inr alice"
    by (simp_all add: example_defs auth_defs)
  have p: "getProjectById db0 1 = Some \<lparr>p_id = 1, p_name = ''Launch'', owner_id = 1\<rparr>"
    by (simp add: getProjectById_def db0_def)
  have mc: "getMemberRole db0 1 (u_id carol) = Some \<lparr>m_project_id = 1, m_user_id = 3, m_role = PMember\<rparr>"
    and ma: "getMemberRole db0 1 (u_id alice) = Some \<lparr>m_project_id = 1, m_user_id = 1, m_role = POwner\<rparr>"
    by (simp_all add: getMemberRole_def db0_def carol_def alice_def)
  from member_removes_self [OF ac p mc]
  have "\<exists>d'. removeMember env0 db0 2000 (Some (tokenOf carol)) 1 (u_id carol) = (d', Inr ()) \<and>
         getMemberRole d' 1 (u_id carol) = None"
    by (simp add: carol_def)
  moreover from member_removes_self [OF aa p ma]
  have "removeMember env0 db0 2000 (Some (tokenOf alice)) 1 (u_id alice) =
     (db0, Inl (Failure 400 ''Cannot remove project owner''))"
    by (simp add: alice_def)
  ultimately show ?thesis using ac aa p mc ma by simp
qed

text \<open>
  C8 as stated fails for an owner: bob creates the project "Side", which gives him the
  membership row with role owner, and his request to remove himself is refused.
\<close>

theorem owner_removes_self_counterexample:
  "createProject env0 db0 2000 (Some (tokenOf bob)) ''Side'' =
     (db_side, Inr (Some \<lparr>p_id = 2, p_name = ''Side'', owner_id = 2\<rparr>)) \<and>
   authenticateToken env0 db_side 3000 (Some (tokenOf bob)) = Inr bob \<and>
   getMemberRole db_side 2 (u_id bob) = Some \<lparr>m_project_id = 2, m_user_id = 2, m_role = POwner\<rparr> \<and>
   removeMember env0 db_side 3000 (Some (tokenOf bob)) 2 (u_id bob) =
     (db_side, Inl (Failure 400 ''Cannot remove project owner''))"
proof -
  have a0: "authenticateToken env0 db0 2000 (Some (tokenOf bob)) = Inr bob"
    by (simp add: example_defs auth_defs)
  have c: "createProject env0 db0 2000 (Some (tokenOf bob)) ''Side'' =
     (db_side, Inr (Some \<lparr>p_id = 2, p_name = ''Side'', owner_id = 2\<rparr>))"
    by (simp add: createProject_def a0)
       (simp add: Let_def next_id_def max_id_def getProjectById_def logActivity_def
          db_side_def db0_def bob_def)
  have a1: "authenticateToken env0 db_side 3000 (Some (tokenOf bob)) = Inr bob"
    by (simp add: db_side_def example_defs auth_defs)
  have m: "getMemberRole db_side 2 (u_id bob) = Some \<lparr>m_project_id = 2, m_user_id = 2, m_role = POwner\<rparr>"
    by (simp add: getMemberRole_def db_side_def db0_def bob_def)
  have r: "removeMember env0 db_side 3000 (Some (tokenOf bob)) 2 (u_id bob) =
     (db_side, Inl (Failure 400 ''Cannot remove project owner''))"
    by (simp add: removeMember_def a1)
       (simp add: getProjectById_def db_side_def db0_def bob_def)
  from c a1 m r show ?thesis by simp
qed

subsection \<open>C9: Deactivated and missing users\<close>

text \<open>
  C9. A request whose token has a valid signature and has not expired is still refused
  with status 401, and no user is attached to it, when the user the token names is no longer
  in the store or has been deactivated.
\<close>

theorem deactivated_or_missing_user_unauthorized:
  assumes "tok_key tok = JWT_SECRET e" and "now < tok_exp tok"
    and "getUserById d (tok_userId tok) = None \<or>
         (\<exists>u. getUserById d (tok_userId tok) = Some u \<and> \<not> is_active u)"
  shows "\<exists>msg. authenticateToken e d now (Some tok) = Inl (Failure 401 msg)"
  using assms by (auto simp: authenticateToken_def jwt_verify_def)

theorem deactivated_or_missing_user_unauthorized_witness:
  "authenticateToken env0 db0 2000 (Some (tokenOf dave)) = Inl (Failure 401 ''Account is deactivated'')
   \<and> (\<exists>msg. authenticateToken env0 db0 2000 (Some (tokenOf dave)) = Inl (Failure 401 msg))"
proof -
  have k: "tok_key (tokenOf dave) = JWT_SECRET env0"
    by (simp add: example_defs)
  have x: "2000 < tok_exp (tokenOf dave)"
    by (simp add: example_defs)
  have u: "getUserById db0 (tok_userId (tokenOf dave)) = None \<or>
           (\<exists>u. getUserById db0 (tok_userId (tokenOf dave)) = Some u \<and> \<not> is_active u)"
    by (simp add: example_defs getUserById_def)
  have "authenticateToken env0 db0 2000 (Some (tokenOf dave)) = Inl (Failure 401 ''Account is deactivated'')"
    by (simp add: example_defs auth_defs)
  with deactivated_or_missing_user_unauthorized [OF k x u] show ?thesis by simp
qed

subsection \<open>C10: Toggling one's own account\<close>

text \<open>
  C10. An authenticated administrator who asks to toggle the activation of their own
  account is refused with status 400, whatever the other accounts are, and the store is
  left as it was.
\<close>

theorem toggle_own_account_refused:
  assumes "authenticateToken e d now hdr = Inr a" and "role a = Admin"
  shows "toggleActive e d now hdr (u_id a) =
           (d, Inl (Failure 400 ''Cannot deactivate your own account''))"
  using assms by (simp add: toggleActive_def requireAdmin_def requireRole_def)

theorem toggle_own_account_refused_witness:
  "authenticateToken env0 db0 2000 (Some (tokenOf alice)) = Inr alice \<and> role alice = Admin \<and>
   toggleActive env0 db0 2000 (Some (tokenOf alice)) (u_id alice) =
     (db0, Inl (Failure 400 ''Cannot deactivate your own account''))"
proof -
  have a: "authenticateToken env0 db0 2000 (Some (tokenOf alice)) = Inr alice"
    by (simp add: example_defs auth_defs)
  have r: "role alice = Admin"
    by (simp add: alice_def)
  from toggle_own_account_refused [OF a r] a r show ?thesis by simp
qed

end
